theory Spec2Isabelle
  imports Main "HOL-Library.Word"
begin

chapter \<open>Medical assistant: relay service and client workflow controller\<close>

text \<open>
  A shallow embedding of \<^verbatim>\<open>server.js\<close> (the relay endpoint \<^verbatim>\<open>POST /api/claude\<close>)
  and of the handlers of \<^verbatim>\<open>src/App.jsx\<close> that drive the staged workflow
  (\<^verbatim>\<open>callClaude\<close>, \<^verbatim>\<open>analyzeSymptoms\<close>, \<^verbatim>\<open>toggleSymptom\<close>, \<^verbatim>\<open>analyzeCauses\<close>).
  Network calls are an explicit environment function, component state is a record that
  each handler takes and returns, thrown exceptions are values of a sum type, and
  everything a handler shows to the user or sends over the network is returned as a
  trace of effects.
\<close>

section \<open>JavaScript strings\<close>

text \<open>
  A JavaScript string is a sequence of 16-bit code units. \<open>str\<close> embeds an ASCII
  literal; other code units are written as numerals.
\<close>

type_synonym code_unit = "16 word"
type_synonym jsstring = "code_unit list"

definition cu :: "char \<Rightarrow> code_unit" where
  "cu c = of_char c"

definition str :: "string \<Rightarrow> jsstring" where
  "str s = map cu s"

text \<open>
  \<^verbatim>\<open>String.prototype.trim\<close> removes the code units of WhiteSpace and LineTerminator
  from both ends: TAB, LF, VT, FF, CR, SP, NBSP, U+1680, U+2000 to U+200A, U+2028, U+2029,
  U+202F, U+205F, U+3000 and U+FEFF.
\<close>

definition js_whitespace :: "code_unit \<Rightarrow> bool" where
  "js_whitespace c \<longleftrightarrow>
     (0x09 \<le> c \<and> c \<le> 0x0D) \<or> c = 0x20 \<or> c = 0xA0 \<or> c = 0x1680 \<or>
     (0x2000 \<le> c \<and> c \<le> 0x200A) \<or> c = 0x2028 \<or> c = 0x2029 \<or> c = 0x202F \<or>
     c = 0x205F \<or> c = 0x3000 \<or> c = 0xFEFF"

definition trim :: "jsstring \<Rightarrow> jsstring" where
  "trim s = rev (dropWhile js_whitespace (rev (dropWhile js_whitespace s)))"

text \<open>
  \<^verbatim>\<open>s.split(sep)\<close> for a one-unit separator: the pieces between the separators, in
  order; the empty string gives one empty piece.
\<close>

fun split :: "code_unit \<Rightarrow> jsstring \<Rightarrow> jsstring list" where
  "split sep [] = [[]]"
| "split sep (c # cs) =
     (if c = sep then [] # split sep cs
      else (case split sep cs of
              [] \<Rightarrow> [[c]]
            | p # ps \<Rightarrow> (c # p) # ps))"

text \<open>\<^verbatim>\<open>xs.join(sep)\<close> on an array of strings.\<close>

fun join :: "jsstring \<Rightarrow> jsstring list \<Rightarrow> jsstring" where
  "join sep [] = []"
| "join sep [x] = x"
| "join sep (x # y # ys) = x @ sep @ join sep (y # ys)"

text \<open>
  \<^verbatim>\<open>text.match(/\[[\s\S]*\]/)\<close> and \<^verbatim>\<open>text.match(/\{[\s\S]*\}/)\<close>: the pattern is an
  opening delimiter, any code units (\<^verbatim>\<open>[\s\S]\<close> matches every unit) taken greedily,
  and a closing delimiter. The match starts at the leftmost position where one exists,
  that is at the first opening delimiter, and the greedy star gives back units only until
  a closing delimiter is reached, so the match ends at the last closing delimiter of the
  text. When no closing delimiter follows the first opening one, none follows a later
  one either and \<^verbatim>\<open>match\<close> returns \<^verbatim>\<open>null\<close> (here \<open>None\<close>). The result is
  element \<^verbatim>\<open>[0]\<close> of the match array, the matched text.
\<close>

definition match_delimited :: "code_unit \<Rightarrow> code_unit \<Rightarrow> jsstring \<Rightarrow> jsstring option" where
  "match_delimited l r text =
     (case dropWhile (\<lambda>c. c \<noteq> l) text of
        [] \<Rightarrow> None
      | opening # after \<Rightarrow>
          (case dropWhile (\<lambda>c. c \<noteq> r) (rev after) of
             [] \<Rightarrow> None
           | closing # before \<Rightarrow> Some (opening # rev before @ [closing])))"

definition match_brackets :: "jsstring \<Rightarrow> jsstring option" where
  "match_brackets text = match_delimited (cu CHR ''['') (cu CHR '']'') text"

definition match_braces :: "jsstring \<Rightarrow> jsstring option" where
  "match_braces text = match_delimited (cu CHR ''{'') (cu CHR ''}'') text"

section \<open>JSON values and \<^verbatim>\<open>JSON.parse\<close>\<close>

text \<open>
  The values \<^verbatim>\<open>JSON.parse\<close> produces. A number is kept as its token (the engine
  converts it to the nearest double, which is not modelled). An object keeps its members in
  source order, duplicates included; reading a property takes the last member of that
  name, as the engine's object does.
\<close>

datatype json =
    JNull
  | JBool bool
  | JNumber jsstring
  | JString jsstring
  | JArray "json list"
  | JObject "(jsstring \<times> json) list"

text \<open>
  \<^verbatim>\<open>JSON.parse\<close> is a built-in of the engine; the model follows the JSON grammar of
  ECMA-262 (section 25.5.1) in two passes: the text is cut into tokens, and a pushdown
  automaton reads the tokens. A text the grammar rejects makes \<^verbatim>\<open>JSON.parse\<close> throw
  a SyntaxError: \<open>None\<close> here.
\<close>

datatype token =
    LBracket | RBracket | LBrace | RBrace | Comma | Colon
  | TString jsstring | TNumber jsstring | TTrue | TFalse | TNull

text \<open>JSON white space is TAB, LF, CR and SP only.\<close>

definition json_whitespace :: "code_unit \<Rightarrow> bool" where
  "json_whitespace c \<longleftrightarrow> c = 0x09 \<or> c = 0x0A \<or> c = 0x0D \<or> c = 0x20"

definition is_digit :: "code_unit \<Rightarrow> bool" where
  "is_digit c \<longleftrightarrow> cu CHR ''0'' \<le> c \<and> c \<le> cu CHR ''9''"

definition hex_value :: "code_unit \<Rightarrow> code_unit option" where
  "hex_value c =
     (if cu CHR ''0'' \<le> c \<and> c \<le> cu CHR ''9'' then Some (c - cu CHR ''0'')
      else if cu CHR ''a'' \<le> c \<and> c \<le> cu CHR ''f'' then Some (c - cu CHR ''a'' + 10)
      else if cu CHR ''A'' \<le> c \<and> c \<le> cu CHR ''F'' then Some (c - cu CHR ''A'' + 10)
      else None)"

text \<open>The unit a one-letter escape stands for; \<open>0x22\<close> is the double quote, \<open>0x5C\<close> the backslash.\<close>

definition unescape :: "code_unit \<Rightarrow> code_unit option" where
  "unescape e =
     (if e = 0x22 then Some 0x22
      else if e = 0x5C then Some 0x5C
      else if e = cu CHR ''/'' then Some 0x2F
      else if e = cu CHR ''b'' then Some 0x08
      else if e = cu CHR ''f'' then Some 0x0C
      else if e = cu CHR ''n'' then Some 0x0A
      else if e = cu CHR ''r'' then Some 0x0D
      else if e = cu CHR ''t'' then Some 0x09
      else None)"

text \<open>What follows a backslash inside a string: a one-letter escape or \<^verbatim>\<open>uXXXX\<close>.\<close>

definition lex_escape :: "jsstring \<Rightarrow> (code_unit \<times> jsstring) option" where
  "lex_escape s =
     (case s of
        [] \<Rightarrow> None
      | e # r \<Rightarrow>
          if e = cu CHR ''u'' then
            (case r of
               h1 # h2 # h3 # h4 # r' \<Rightarrow>
                 (case (hex_value h1, hex_value h2, hex_value h3, hex_value h4) of
                    (Some a, Some b, Some c, Some d) \<Rightarrow>
                      Some (((a * 16 + b) * 16 + c) * 16 + d, r')
                  | _ \<Rightarrow> None)
             | _ \<Rightarrow> None)
          else map_option (\<lambda>u. (u, r)) (unescape e))"

lemma lex_escape_shorter: "lex_escape s = Some (u, rest) \<Longrightarrow> length rest < length s"
  unfolding lex_escape_def
  by (cases s) (auto split: if_splits list.splits option.splits)

text \<open>
  The units of a string after its opening quote, up to the closing quote: \<open>acc\<close> is the
  content read so far. A control unit below U+0020 is not allowed unescaped.
\<close>

function lex_string :: "jsstring \<Rightarrow> jsstring \<Rightarrow> (jsstring \<times> jsstring) option" where
  "lex_string acc [] = None"
| "lex_string acc (c # cs) =
     (if c = 0x22 then Some (acc, cs)
      else if c = 0x5C then
        (case lex_escape cs of
           None \<Rightarrow> None
         | Some (u, rest) \<Rightarrow> lex_string (acc @ [u]) rest)
      else if c < 0x20 then None
      else lex_string (acc @ [c]) cs)"
  by pat_completeness auto
termination
  by (relation "measure (\<lambda>(acc, s). length s)")
     (auto dest: lex_escape_shorter)

lemma lex_string_shorter:
  "lex_string acc s = Some (r, rest) \<Longrightarrow> length rest < length s"
proof (induction acc s rule: lex_string.induct)
  case (1 acc)
  then show ?case by simp
next
  case (2 acc c cs)
  show ?case
  proof (cases "c = 0x22")
    case True
    with 2 show ?thesis by simp
  next
    case nq: False
    show ?thesis
    proof (cases "c = 0x5C")
      case False
      with nq 2 show ?thesis by (auto split: if_splits)
    next
      case bs: True
      from "2.prems" nq bs obtain u r' where e: "lex_escape cs = Some (u, r')"
        and l: "lex_string (acc @ [u]) r' = Some (r, rest)"
        by (auto split: option.splits)
      from "2.IH"(1) [OF nq bs e refl l] have "length rest < length r'" .
      with lex_escape_shorter [OF e] show ?thesis by simp
    qed
  qed
qed

text \<open>
  A number token: an optional minus, an integer part (\<^verbatim>\<open>0\<close>, or a non-zero digit and
  more digits), an optional fraction (a point and at least one digit) and an optional
  exponent (\<^verbatim>\<open>e\<close> or \<^verbatim>\<open>E\<close>, an optional sign and at least one digit). Each function
  returns the units it took and the rest of the text.
\<close>

definition lex_exponent :: "jsstring \<Rightarrow> jsstring \<times> jsstring" where
  "lex_exponent s =
     (case s of
        [] \<Rightarrow> ([], s)
      | e # t \<Rightarrow>
          if e = cu CHR ''e'' \<or> e = cu CHR ''E'' then
            (let (sg, u) = (case t of
                              [] \<Rightarrow> ([], t)
                            | x # u \<Rightarrow> if x = cu CHR ''+'' \<or> x = cu CHR ''-'' then ([x], u) else ([], t))
             in case u of
                  [] \<Rightarrow> ([], s)
                | d # _ \<Rightarrow> if is_digit d then (e # sg @ takeWhile is_digit u, dropWhile is_digit u)
                           else ([], s))
          else ([], s))"

definition lex_fraction :: "jsstring \<Rightarrow> jsstring \<times> jsstring" where
  "lex_fraction s =
     (case s of
        p # d # t \<Rightarrow>
          if p = cu CHR ''.'' \<and> is_digit d
          then (p # takeWhile is_digit (d # t), dropWhile is_digit (d # t))
          else ([], s)
      | _ \<Rightarrow> ([], s))"

definition lex_number :: "jsstring \<Rightarrow> (jsstring \<times> jsstring) option" where
  "lex_number s =
     (let (sg, s1) = (case s of
                        [] \<Rightarrow> ([], s)
                      | c # r \<Rightarrow> if c = cu CHR ''-'' then ([c], r) else ([], s))
      in case s1 of
           [] \<Rightarrow> None
         | d # r \<Rightarrow>
             if \<not> is_digit d then None
             else
               (let (ip, s2) = (if d = cu CHR ''0'' then ([d], r)
                                else (d # takeWhile is_digit r, dropWhile is_digit r));
                    (fp, s3) = lex_fraction s2;
                    (ep, s4) = lex_exponent s3
                in Some (sg @ ip @ fp @ ep, s4)))"

lemma lex_exponent_shorter: "lex_exponent s = (e, rest) \<Longrightarrow> length rest \<le> length s"
  unfolding lex_exponent_def
  by (cases s) (auto simp: Let_def le_SucI length_dropWhile_le split: list.splits if_splits prod.splits)

lemma lex_fraction_shorter: "lex_fraction s = (e, rest) \<Longrightarrow> length rest \<le> length s"
  unfolding lex_fraction_def
  by (auto simp: le_SucI length_dropWhile_le split: list.splits if_splits)

lemma lex_number_shorter:
  assumes "lex_number s = Some (n, rest)"
  shows "length rest < length s"
proof -
  obtain sg s1 where sg: "(case s of [] \<Rightarrow> ([], s)
                      | c # r \<Rightarrow> if c = cu CHR ''-'' then ([c], r) else ([], s)) = (sg, s1)"
    by (cases "(case s of [] \<Rightarrow> ([], s)
                      | c # r \<Rightarrow> if c = cu CHR ''-'' then ([c], r) else ([], s))")
  then have l1: "length s1 \<le> length s"
    by (auto split: list.splits if_splits)
  from assms sg obtain d r where s1: "s1 = d # r" and dig: "is_digit d"
    by (auto simp: lex_number_def split: list.splits if_splits)
  obtain ip s2 where ip: "(if d = cu CHR ''0'' then ([d], r)
                                else (d # takeWhile is_digit r, dropWhile is_digit r)) = (ip, s2)"
    by (cases "(if d = cu CHR ''0'' then ([d], r)
                                else (d # takeWhile is_digit r, dropWhile is_digit r))")
  then have l2: "length s2 \<le> length r"
    by (auto split: if_splits simp: length_dropWhile_le)
  obtain fp s3 where fp: "lex_fraction s2 = (fp, s3)" by (cases "lex_fraction s2")
  obtain ep s4 where ep: "lex_exponent s3 = (ep, s4)" by (cases "lex_exponent s3")
  from assms sg s1 dig ip fp ep have "rest = s4"
    by (simp add: lex_number_def)
  with lex_fraction_shorter [OF fp] lex_exponent_shorter [OF ep] l1 l2 s1
  show ?thesis by simp
qed

definition starts_with :: "jsstring \<Rightarrow> jsstring \<Rightarrow> bool" where
  "starts_with p s \<longleftrightarrow> take (length p) s = p"

text \<open>
  The tokens of a text, or \<open>None\<close> at a unit that starts no token. Tokens need no
  separator; two values in a row are refused by the automaton below.
\<close>

function tokenize :: "jsstring \<Rightarrow> token list option" where
  "tokenize [] = Some []"
| "tokenize (c # cs) =
     (if json_whitespace c then tokenize cs
      else if c = cu CHR ''['' then map_option ((#) LBracket) (tokenize cs)
      else if c = cu CHR '']'' then map_option ((#) RBracket) (tokenize cs)
      else if c = cu CHR ''{'' then map_option ((#) LBrace) (tokenize cs)
      else if c = cu CHR ''}'' then map_option ((#) RBrace) (tokenize cs)
      else if c = cu CHR '','' then map_option ((#) Comma) (tokenize cs)
      else if c = cu CHR '':'' then map_option ((#) Colon) (tokenize cs)
      else if c = 0x22 then
        (case lex_string [] cs of
           None \<Rightarrow> None
         | Some (s, rest) \<Rightarrow> map_option ((#) (TString s)) (tokenize rest))
      else if c = cu CHR ''-'' \<or> is_digit c then
        (case lex_number (c # cs) of
           None \<Rightarrow> None
         | Some (n, rest) \<Rightarrow> map_option ((#) (TNumber n)) (tokenize rest))
      else if starts_with (str ''true'') (c # cs) then
        map_option ((#) TTrue) (tokenize (drop 3 cs))
      else if starts_with (str ''false'') (c # cs) then
        map_option ((#) TFalse) (tokenize (drop 4 cs))
      else if starts_with (str ''null'') (c # cs) then
        map_option ((#) TNull) (tokenize (drop 3 cs))
      else None)"
  by pat_completeness auto
termination
  by (relation "measure length")
     (auto dest: lex_string_shorter lex_number_shorter intro: le_imp_less_Suc)

text \<open>
  The automaton. Its stack holds the containers that are open: an array with the elements
  read so far, or an object with the members read so far and the key whose value is being
  read (both lists newest first). Its state says what may come next.
\<close>

datatype frame =
    InArray "json list"
  | InObject "(jsstring \<times> json) list" jsstring

datatype pstate =
    PValue "frame list"
  | PArrayStart "frame list"
  | PObjectStart "frame list"
  | PArrayNext "json list" "frame list"
  | PObjectNext "(jsstring \<times> json) list" "frame list"
  | PKey "(jsstring \<times> json) list" "frame list"
  | PColon "(jsstring \<times> json) list" jsstring "frame list"
  | PDone json

text \<open>A value is complete: it is the whole text, an array element or a member's value.\<close>

fun complete :: "json \<Rightarrow> frame list \<Rightarrow> pstate" where
  "complete v [] = PDone v"
| "complete v (InArray vs # stk) = PArrayNext (v # vs) stk"
| "complete v (InObject ms k # stk) = PObjectNext ((k, v) # ms) stk"

fun start_value :: "frame list \<Rightarrow> token \<Rightarrow> pstate option" where
  "start_value stk (TString s) = Some (complete (JString s) stk)"
| "start_value stk (TNumber n) = Some (complete (JNumber n) stk)"
| "start_value stk TTrue = Some (complete (JBool True) stk)"
| "start_value stk TFalse = Some (complete (JBool False) stk)"
| "start_value stk TNull = Some (complete JNull stk)"
| "start_value stk LBracket = Some (PArrayStart stk)"
| "start_value stk LBrace = Some (PObjectStart stk)"
| "start_value stk _ = None"

fun pstep :: "pstate \<Rightarrow> token \<Rightarrow> pstate option" where
  "pstep (PValue stk) t = start_value stk t"
| "pstep (PArrayStart stk) t =
     (if t = RBracket then Some (complete (JArray []) stk)
      else start_value (InArray [] # stk) t)"
| "pstep (PObjectStart stk) t =
     (case t of
        RBrace \<Rightarrow> Some (complete (JObject []) stk)
      | TString k \<Rightarrow> Some (PColon [] k stk)
      | _ \<Rightarrow> None)"
| "pstep (PArrayNext vs stk) t =
     (case t of
        Comma \<Rightarrow> Some (PValue (InArray vs # stk))
      | RBracket \<Rightarrow> Some (complete (JArray (rev vs)) stk)
      | _ \<Rightarrow> None)"
| "pstep (PObjectNext ms stk) t =
     (case t of
        Comma \<Rightarrow> Some (PKey ms stk)
      | RBrace \<Rightarrow> Some (complete (JObject (rev ms)) stk)
      | _ \<Rightarrow> None)"
| "pstep (PKey ms stk) t =
     (case t of TString k \<Rightarrow> Some (PColon ms k stk) | _ \<Rightarrow> None)"
| "pstep (PColon ms k stk) t =
     (case t of Colon \<Rightarrow> Some (PValue (InObject ms k # stk)) | _ \<Rightarrow> None)"
| "pstep (PDone v) t = None"

fun parse_tokens :: "pstate \<Rightarrow> token list \<Rightarrow> json option" where
  "parse_tokens (PDone v) [] = Some v"
| "parse_tokens _ [] = None"
| "parse_tokens st (t # ts) =
     (case pstep st t of None \<Rightarrow> None | Some st' \<Rightarrow> parse_tokens st' ts)"

definition JSON_parse :: "jsstring \<Rightarrow> json option" where
  "JSON_parse text =
     (case tokenize text of
        None \<Rightarrow> None
      | Some ts \<Rightarrow> parse_tokens (PValue []) ts)"

text \<open>The equations that evaluate the parser on a literal text.\<close>

lemmas json_eval =
  JSON_parse_def str_def cu_def json_whitespace_def is_digit_def starts_with_def
  lex_number_def lex_fraction_def lex_exponent_def lex_escape_def unescape_def hex_value_def

lemma JSON_parse_empty_array: "JSON_parse (str ''[]'') = Some (JArray [])"
  by (simp add: json_eval)

lemma JSON_parse_two_arrays: "JSON_parse (str ''[] []'') = None"
  by (simp add: json_eval)

lemma JSON_parse_markup: "JSON_parse (str ''<html>'') = None"
  by (simp add: json_eval)

section \<open>The relay service (\<^verbatim>\<open>server.js\<close>)\<close>

subsection \<open>Requests and responses\<close>

text \<open>
  The handler destructures five fields from the request body, the JSON object that
  \<^verbatim>\<open>express.json()\<close> has parsed:
  \<^verbatim>\<open>const { apiKey, messages, system, model, max_tokens } = req.body\<close>.
  A field that the body lacks is \<^verbatim>\<open>undefined\<close>, here \<open>None\<close>. The fields have the
  types of the interface: the credential, the system instruction and the model identifier
  are strings, the message list is a list of \<^verbatim>\<open>{role, content}\<close>, the token limit is
  an integer.
\<close>

record chat_message =
  role :: jsstring
  content :: jsstring

record relay_request =
  apiKey :: "jsstring option"
  messages :: "chat_message list option"
  system :: "jsstring option"
  model :: "jsstring option"
  max_tokens :: "int option"

text \<open>
  JavaScript truthiness on these types: \<^verbatim>\<open>undefined\<close>, the empty string and the
  number zero are falsy. \<^verbatim>\<open>a || d\<close> is \<^verbatim>\<open>a\<close> when \<^verbatim>\<open>a\<close> is truthy and
  \<^verbatim>\<open>d\<close> otherwise.
\<close>

definition string_or :: "jsstring option \<Rightarrow> jsstring \<Rightarrow> jsstring" where
  "string_or v d = (case v of None \<Rightarrow> d | Some s \<Rightarrow> if s \<noteq> [] then s else d)"

definition number_or :: "int option \<Rightarrow> int \<Rightarrow> int" where
  "number_or v d = (case v of None \<Rightarrow> d | Some n \<Rightarrow> if n \<noteq> 0 then n else d)"

text \<open>
  The call to the upstream API: the arguments of \<^verbatim>\<open>fetch\<close>. The payload is the
  object given to \<^verbatim>\<open>JSON.stringify\<close>; a field that is \<open>None\<close> is left out of the
  serialised text.
\<close>

record upstream_payload =
  payload_model :: jsstring
  payload_max_tokens :: int
  payload_system :: "jsstring option"
  payload_messages :: "chat_message list option"

record upstream_call =
  url :: jsstring
  http_method :: jsstring
  headers :: "(jsstring \<times> jsstring) list"
  payload :: upstream_payload

text \<open>
  What the upstream call does, as the handler sees it: \<^verbatim>\<open>fetch\<close> rejects (the
  network failed; the argument is the message of the exception), or a response arrives
  with a status code and a body. \<^verbatim>\<open>response.json()\<close> parses the body: \<open>Inr\<close> the
  value, or \<open>Inl\<close> the message of the exception it rejects with when the body is not
  JSON. \<^verbatim>\<open>response.ok\<close> is true for the statuses 200 to 299.
\<close>

datatype upstream_outcome =
    FetchRejects jsstring
  | UpstreamResponse nat "jsstring + json"

definition response_ok :: "nat \<Rightarrow> bool" where
  "response_ok st \<longleftrightarrow> 200 \<le> st \<and> st \<le> 299"

text \<open>The relay's answer: \<^verbatim>\<open>res.status(s).json(v)\<close>.\<close>

record relay_response =
  status :: nat
  body :: json

subsection \<open>The handler of \<^verbatim>\<open>POST /api/claude\<close>\<close>

definition anthropic_call :: "jsstring \<Rightarrow> relay_request \<Rightarrow> upstream_call" where
  "anthropic_call k req =
     \<lparr>url = str ''https://api.anthropic.com/v1/messages'',
      http_method = str ''POST'',
      headers = [(str ''Content-Type'', str ''application/json''),
                 (str ''x-api-key'', k),
                 (str ''anthropic-version'', str ''2023-06-01'')],
      payload = \<lparr>payload_model = string_or (model req) (str ''claude-sonnet-4-20250514''),
                 payload_max_tokens = number_or (max_tokens req) 4096,
                 payload_system = system req,
                 payload_messages = messages req\<rparr>\<rparr>"

text \<open>
  The message of the TypeError that \<^verbatim>\<open>data.usage\<close> raises when \<^verbatim>\<open>data\<close> is
  \<^verbatim>\<open>null\<close> (the server runs on Node, whose engine words it so):
  \<^verbatim>\<open>Cannot read properties of null (reading 'usage')\<close>.
\<close>

definition null_usage_message :: jsstring where
  "null_usage_message =
     str ''Cannot read properties of null (reading '' @ [0x27] @ str ''usage'' @ [0x27] @ str '')''"

text \<open>
  The body of the \<^verbatim>\<open>try\<close> block. \<^verbatim>\<open>!apiKey\<close> holds for a missing and for an
  empty credential; both are answered with status 400 and
  \<^verbatim>\<open>{ error: 'API key is required' }\<close> before any call is made. The result is
  \<open>Inl\<close> the message of a thrown exception or \<open>Inr\<close> the response sent, with the
  upstream calls made. An exception is its message, the only part of it the
  \<^verbatim>\<open>catch\<close> block reads. The
  \<^verbatim>\<open>console.log\<close> lines write to the server's log only and are left out, except that
  the one on the success path reads \<^verbatim>\<open>data.usage\<close> and so throws on \<^verbatim>\<open>null\<close>.
\<close>

definition api_key_required :: relay_response where
  "api_key_required =
     \<lparr>status = 400, body = JObject [(str ''error'', JString (str ''API key is required''))]\<rparr>"

definition relay_try ::
  "(upstream_call \<Rightarrow> upstream_outcome) \<Rightarrow> relay_request \<Rightarrow>
     (jsstring + relay_response) \<times> upstream_call list" where
  "relay_try fetch req =
     (case apiKey req of
        None \<Rightarrow> (Inr api_key_required, [])
      | Some k \<Rightarrow>
          if k = [] then (Inr api_key_required, [])
          else
            (let call = anthropic_call k req in
             case fetch call of
               FetchRejects m \<Rightarrow> (Inl m, [call])
             | UpstreamResponse st parsed \<Rightarrow>
                 if \<not> response_ok st then
                   (case parsed of
                      Inl m \<Rightarrow> (Inl m, [call])
                    | Inr errorData \<Rightarrow> (Inr \<lparr>status = st, body = errorData\<rparr>, [call]))
                 else
                   (case parsed of
                      Inl m \<Rightarrow> (Inl m, [call])
                    | Inr data \<Rightarrow>
                        if data = JNull then (Inl null_usage_message, [call])
                        else (Inr \<lparr>status = 200, body = data\<rparr>, [call]))))"

text \<open>
  The whole handler: the \<^verbatim>\<open>catch\<close> block answers every exception of the
  \<^verbatim>\<open>try\<close> block with status 500 and
  \<^verbatim>\<open>{ error: { message: error.message, type: 'server_error' } }\<close>.
\<close>

definition server_error :: "jsstring \<Rightarrow> relay_response" where
  "server_error m =
     \<lparr>status = 500,
      body = JObject [(str ''error'',
                       JObject [(str ''message'', JString m),
                                (str ''type'', JString (str ''server_error''))])]\<rparr>"

definition relay ::
  "(upstream_call \<Rightarrow> upstream_outcome) \<Rightarrow> relay_request \<Rightarrow> relay_response \<times> upstream_call list" where
  "relay fetch req =
     (case relay_try fetch req of
        (Inl m, calls) \<Rightarrow> (server_error m, calls)
      | (Inr response, calls) \<Rightarrow> (response, calls))"

section \<open>The workflow controller (\<^verbatim>\<open>src/App.jsx\<close>)\<close>

subsection \<open>Component state\<close>

text \<open>
  The values of \<^verbatim>\<open>activeTab\<close>: the four stages and the two side views.
\<close>

datatype tab = Upload | Symptoms | Causes | Solutions | Settings | Debug

text \<open>
  An exception. \<open>Error m\<close> is an error object whose message is \<open>m\<close>. \<open>TypeError\<close>
  and \<open>SyntaxError\<close> are raised by the engine itself (a property read on
  \<^verbatim>\<open>undefined\<close> or \<^verbatim>\<open>null\<close>, a text \<^verbatim>\<open>JSON.parse\<close> rejects); the wording of
  their messages differs between browsers and is not modelled.
\<close>

datatype js_error = Error jsstring | TypeError | SyntaxError

text \<open>
  A debug-log entry \<^verbatim>\<open>{ timestamp, message, type }\<close>. The time stamp is the wall-clock
  time and is left out. A message that interpolates a value keeps the value instead of
  its rendering:
  \<^item> \<open>ApiErrorText m\<close> is \<^verbatim>\<open>`API Error: ${m || 'Unknown error'}`\<close>,
  \<^item> \<open>TokensText u\<close> is \<^verbatim>\<open>`API call successful. Tokens used: ${...}`\<close>,
  \<^item> \<open>ExceptionText e\<close> is \<^verbatim>\<open>`Exception: ${e.message}`\<close>,
  \<^item> \<open>ExtractedText v\<close> is \<^verbatim>\<open>`Extracted ${v.length} symptoms`\<close>,
  \<^item> \<open>IdentifiedText v\<close> is \<^verbatim>\<open>`Identified ${v.causes?.length || 0} potential causes`\<close>.
\<close>

datatype log_level = Info | Success | Warning | Failure

datatype log_text =
    Text jsstring
  | ApiErrorText "jsstring option"
  | TokensText "(int \<times> int) option"
  | ExceptionText js_error
  | ExtractedText json
  | IdentifiedText json

record log_entry =
  log_message :: log_text
  log_type :: log_level

text \<open>
  A symptom object, in the shape the extraction prompt asks for:
  \<^verbatim>\<open>{"symptom": ..., "severity": ..., "source": ...}\<close>. The field \<open>symptom\<close> is its name.
\<close>

record symptom =
  symptom :: jsstring
  severity :: jsstring
  source :: jsstring

text \<open>
  The state variables of the component (\<^verbatim>\<open>useState\<close>), under their source names;
  the credential is \<open>apiKey'\<close> here because \<open>apiKey\<close> is the request field.
  \<^verbatim>\<open>extractedSymptoms\<close> holds whatever \<^verbatim>\<open>JSON.parse\<close> returned (initially the empty
  array); \<^verbatim>\<open>potentialCauses\<close> and \<^verbatim>\<open>solutions\<close> are \<^verbatim>\<open>null\<close> until set.
\<close>

record app_state =
  activeTab :: tab
  apiKey' :: jsstring
  tempApiKey :: jsstring
  showApiKeyInput :: bool
  pdfText :: jsstring
  manualText :: jsstring
  loading :: bool
  debugLogs :: "log_entry list"
  extractedSymptoms :: json
  confirmedSymptoms :: "symptom list"
  additionalSymptoms :: jsstring
  potentialCauses :: json
  solutions :: json
  activeChatSource :: json
  chatMessages :: "(jsstring \<times> chat_message list) list"
  chatInput :: jsstring
  expandedSources :: "(jsstring \<times> bool) list"

text \<open>
  What a handler does to the outside, in order: a request to the relay endpoint
  \<^verbatim>\<open>/api/claude\<close>, or a dialog shown to the user. \<open>AlertError p e\<close> is
  \<^verbatim>\<open>alert(p + e.message)\<close>.
\<close>

datatype effect =
    Fetch relay_request
  | Alert jsstring
  | AlertError jsstring js_error

text \<open>
  What the request to the relay does, as \<^verbatim>\<open>callClaude\<close> sees it: \<^verbatim>\<open>fetch\<close>
  rejects, or a response arrives with a status code and \<^verbatim>\<open>response.json()\<close> gives
  the parsed body or rejects. Of the body the handler reads three parts, typed as the
  interface documents them: \<^verbatim>\<open>error.error?.message\<close> (a string when present), the
  \<^verbatim>\<open>text\<close> fields of the \<^verbatim>\<open>content\<close> array (\<^verbatim>\<open>data.content[0].text\<close> is the first;
  a missing or empty array is \<open>[]\<close>), and the two token counts of \<^verbatim>\<open>usage\<close>.
\<close>

record proxy_body =
  error_message :: "jsstring option"
  content_texts :: "jsstring list"
  usage_tokens :: "(int \<times> int) option"

datatype proxy_outcome =
    Rejects js_error
  | Responds nat "js_error + proxy_body"

subsection \<open>Logging and the call to the relay\<close>

definition addDebugLog :: "log_text \<Rightarrow> log_level \<Rightarrow> app_state \<Rightarrow> app_state" where
  "addDebugLog m t st = st\<lparr>debugLogs := debugLogs st @ [\<lparr>log_message = m, log_type = t\<rparr>]\<rparr>"

definition SYSTEM_PROMPT :: jsstring where
  "SYSTEM_PROMPT =
     str ''From now on, act as my expert assistant with access to all your reasoning and knowledge. Always provide:'' @
     [0x0A, 0x0A, 0x26A0, 0xFE0F] @
     str '' DISCLAIMER: I am an AI agent and not a medical professional. The information I provide should NOT be taken as medical advice. I am only providing information available on the public internet learned by an LLM. I am not responsible for any of the content provided. Always consult with qualified healthcare professionals for medical advice.'' @
     [0x0A, 0x0A] @
     str ''1. A clear, direct answer to your request.'' @
     [0x0A] @
     str ''2. A step-by-step explanation of how I got there.'' @
     [0x0A] @
     str ''3. Alternative perspectives or solutions you might not have thought of.'' @
     [0x0A] @
     str ''4. A practical summary or action plan you can apply immediately.'' @
     [0x0A, 0x0A] @
     str ''I never give vague answers. If the question is broad, I break it into parts. I act like a professional in the relevant domain and push my reasoning to 100% of my capacity.''"

text \<open>
  The body \<^verbatim>\<open>callClaude\<close> posts: the stored credential, the fixed model and limit, the
  system prompt and one user message, \<^verbatim>\<open>context ? `${context}\n\n${prompt}` : prompt\<close>.
\<close>

definition claude_request :: "jsstring \<Rightarrow> jsstring \<Rightarrow> jsstring \<Rightarrow> relay_request" where
  "claude_request key prompt context =
     \<lparr>apiKey = Some key,
      messages = Some [\<lparr>role = str ''user'',
                        content = (if context \<noteq> [] then context @ [0x0A, 0x0A] @ prompt
                                   else prompt)\<rparr>],
      system = Some SYSTEM_PROMPT,
      model = Some (str ''claude-sonnet-4-20250514''),
      max_tokens = Some 4096\<rparr>"

text \<open>
  The \<^verbatim>\<open>try\<close> block of \<^verbatim>\<open>callClaude\<close>: the reply text, or the exception thrown, and
  the state with the log entries made so far.
\<close>

definition callClaude_try ::
  "proxy_outcome \<Rightarrow> app_state \<Rightarrow> (js_error + jsstring) \<times> app_state" where
  "callClaude_try outcome st =
     (case outcome of
        Rejects e \<Rightarrow> (Inl e, st)
      | Responds code parsed \<Rightarrow>
          if \<not> response_ok code then
            (case parsed of
               Inl e \<Rightarrow> (Inl e, st)
             | Inr error \<Rightarrow>
                 (Inl (Error (string_or (error_message error) (str ''API request failed''))),
                  addDebugLog (ApiErrorText (error_message error)) Failure st))
          else
            (case parsed of
               Inl e \<Rightarrow> (Inl e, st)
             | Inr data \<Rightarrow>
                 (let st' = addDebugLog (TokensText (usage_tokens data)) Success st in
                  case content_texts data of
                    [] \<Rightarrow> (Inl TypeError, st')
                  | text # _ \<Rightarrow> (Inr text, st'))))"

text \<open>
  \<^verbatim>\<open>callClaude(prompt, context)\<close>: without a stored credential it throws before any
  request; otherwise it posts the request, and its \<^verbatim>\<open>catch\<close> block logs every
  exception of the \<^verbatim>\<open>try\<close> block and throws it again.
\<close>

definition callClaude ::
  "(relay_request \<Rightarrow> proxy_outcome) \<Rightarrow> jsstring \<Rightarrow> jsstring \<Rightarrow> app_state \<Rightarrow>
     (js_error + jsstring) \<times> app_state \<times> effect list" where
  "callClaude fetch prompt context st =
     (if apiKey' st = [] then
        (Inl (Error (str ''Please configure your Claude API key first'')),
         addDebugLog (Text (str ''Error: No API Key configured'')) Failure st,
         [])
      else
        (let st1 = addDebugLog (Text (str ''Making API call via proxy...'')) Info st;
             request = claude_request (apiKey' st) prompt context
         in case callClaude_try (fetch request) st1 of
              (Inl e, st2) \<Rightarrow> (Inl e, addDebugLog (ExceptionText e) Failure st2, [Fetch request])
            | (Inr text, st2) \<Rightarrow> (Inr text, st2, [Fetch request])))"

subsection \<open>Document ingestion\<close>

text \<open>
  The file chosen in the file picker: its MIME type \<^verbatim>\<open>file.type\<close>, and what
  \<^verbatim>\<open>reader.readAsDataURL(file)\<close> delivers: the data URL, or \<open>None\<close> when reading
  fails and \<^verbatim>\<open>reader.onerror\<close> runs.
\<close>

record uploaded_file =
  file_type :: jsstring
  data_url :: "jsstring option"

definition pdf_prompt :: jsstring where
  "pdf_prompt =
     str ''Extract all medical information, test results, diagnoses, and relevant data from this document. Present it in a clear, structured format.''"

text \<open>
  \<^verbatim>\<open>extractTextFromPDF(file)\<close>: the promise resolves with the reply of the relay or
  rejects with an exception. The context sent is
  \<^verbatim>\<open>`PDF Content (base64): ${e.target.result.split(',')[1].substring(0, 1000)}...`\<close>;
  on a data URL without a comma the second piece is \<^verbatim>\<open>undefined\<close> and
  \<^verbatim>\<open>.substring\<close> throws inside the \<^verbatim>\<open>try\<close> block of \<^verbatim>\<open>reader.onload\<close>.
\<close>

definition extractTextFromPDF ::
  "(relay_request \<Rightarrow> proxy_outcome) \<Rightarrow> uploaded_file \<Rightarrow> app_state \<Rightarrow>
     (js_error + jsstring) \<times> app_state \<times> effect list" where
  "extractTextFromPDF fetch file st =
     (let st1 = addDebugLog (Text (str ''Extracting text from PDF...'')) Info st in
      case data_url file of
        None \<Rightarrow>
          (Inl (Error (str ''Failed to read file'')),
           addDebugLog (Text (str ''File reading error'')) Failure st1,
           [])
      | Some result \<Rightarrow>
          (case split (cu CHR '','') result of
             head # base64 # _ \<Rightarrow>
               (case callClaude fetch pdf_prompt
                       (str ''PDF Content (base64): '' @ take 1000 base64 @ str ''...'') st1 of
                  (Inl e, st2, fx) \<Rightarrow>
                    (Inl e, addDebugLog (Text (str ''Failed to extract text from PDF'')) Failure st2, fx)
                | (Inr text, st2, fx) \<Rightarrow>
                    (Inr text, addDebugLog (Text (str ''Text extracted from PDF'')) Success st2, fx))
           | _ \<Rightarrow>
               (Inl TypeError,
                addDebugLog (Text (str ''Failed to extract text from PDF'')) Failure st1,
                [])))"

text \<open>
  \<^verbatim>\<open>handleFileUpload\<close>: no file chosen, nothing happens; a file that is not a PDF is
  refused with a dialog; otherwise the text is extracted and, on success, stored in
  \<^verbatim>\<open>pdfText\<close> and the active tab becomes \<open>Symptoms\<close>.
\<close>

definition handleFileUpload ::
  "(relay_request \<Rightarrow> proxy_outcome) \<Rightarrow> uploaded_file option \<Rightarrow> app_state \<Rightarrow>
     app_state \<times> effect list" where
  "handleFileUpload fetch chosen st =
     (case chosen of
        None \<Rightarrow> (st, [])
      | Some file \<Rightarrow>
          if file_type file \<noteq> str ''application/pdf'' then
            (addDebugLog (Text (str ''Invalid file type - PDF required'')) Failure st,
             [Alert (str ''Please upload a PDF file'')])
          else
            (case extractTextFromPDF fetch file (st\<lparr>loading := True\<rparr>) of
               (Inr text, st1, fx) \<Rightarrow>
                 (st1\<lparr>pdfText := text, activeTab := Symptoms, loading := False\<rparr>, fx)
             | (Inl e, st1, fx) \<Rightarrow>
                 (st1\<lparr>loading := False\<rparr>,
                  fx @ [AlertError (str ''Failed to process PDF: '') e])))"

subsection \<open>Symptom extraction\<close>

definition symptoms_prompt :: jsstring where
  "symptoms_prompt =
     str ''Analyze this medical data and extract all symptoms, abnormal findings, and concerning indicators. Return ONLY a JSON array of symptoms with this exact format: [{\"symptom\": \"symptom name\", \"severity\": \"mild|moderate|severe\", \"source\": \"where it was found\"}]. No other text.''"

text \<open>\<^verbatim>\<open>pdfText || manualText\<close>, the text the analysis runs on.\<close>

definition medicalData :: "app_state \<Rightarrow> jsstring" where
  "medicalData st = (if pdfText st \<noteq> [] then pdfText st else manualText st)"

text \<open>
  The \<^verbatim>\<open>try\<close> block of \<^verbatim>\<open>analyzeSymptoms\<close>: the exception it throws, if any, the
  state and the effects. After \<^verbatim>\<open>setExtractedSymptoms(symptoms)\<close> the log line reads
  \<^verbatim>\<open>symptoms.length\<close>, which throws on \<^verbatim>\<open>null\<close>.
\<close>

definition analyzeSymptoms_try ::
  "(relay_request \<Rightarrow> proxy_outcome) \<Rightarrow> app_state \<Rightarrow> js_error option \<times> app_state \<times> effect list" where
  "analyzeSymptoms_try fetch st =
     (case callClaude fetch symptoms_prompt (str ''Medical Data:'' @ [0x0A] @ medicalData st) st of
        (Inl e, st1, fx) \<Rightarrow> (Some e, st1, fx)
      | (Inr response, st1, fx) \<Rightarrow>
          (case match_brackets response of
             None \<Rightarrow> (Some (Error (str ''Could not parse symptoms from response'')), st1, fx)
           | Some jsonMatch \<Rightarrow>
               (case JSON_parse jsonMatch of
                  None \<Rightarrow> (Some SyntaxError, st1, fx)
                | Some symptoms \<Rightarrow>
                    (let st2 = st1\<lparr>extractedSymptoms := symptoms\<rparr> in
                     if symptoms = JNull then (Some TypeError, st2, fx)
                     else (None, addDebugLog (ExtractedText symptoms) Success st2, fx)))))"

text \<open>
  \<^verbatim>\<open>analyzeSymptoms\<close>: refuses blank input with a dialog; otherwise sets the busy
  flag, runs the \<^verbatim>\<open>try\<close> block, shows a dialog for an exception, and clears the busy
  flag (\<^verbatim>\<open>finally\<close>).
\<close>

definition analyzeSymptoms ::
  "(relay_request \<Rightarrow> proxy_outcome) \<Rightarrow> app_state \<Rightarrow> app_state \<times> effect list" where
  "analyzeSymptoms fetch st =
     (if trim (medicalData st) = [] then
        (st, [Alert (str ''Please provide medical data first'')])
      else
        (let st1 = addDebugLog (Text (str ''Analyzing medical data for symptoms...'')) Info
                     (st\<lparr>loading := True\<rparr>)
         in case analyzeSymptoms_try fetch st1 of
              (None, st2, fx) \<Rightarrow> (st2\<lparr>loading := False\<rparr>, fx)
            | (Some e, st2, fx) \<Rightarrow>
                (st2\<lparr>loading := False\<rparr>,
                 fx @ [AlertError (str ''Failed to analyze symptoms: '') e])))"

subsection \<open>Confirming symptoms\<close>

text \<open>
  \<^verbatim>\<open>toggleSymptom(symptom)\<close> updates \<^verbatim>\<open>confirmedSymptoms\<close>: when an entry of that
  name exists (\<^verbatim>\<open>prev.find(...)\<close> returns an object, which is truthy), every entry of
  that name is filtered out; otherwise the symptom is appended.
\<close>

definition toggleSymptom :: "symptom \<Rightarrow> app_state \<Rightarrow> app_state" where
  "toggleSymptom s st =
     st\<lparr>confirmedSymptoms :=
          (let prev = confirmedSymptoms st in
           case find (\<lambda>x. symptom x = symptom s) prev of
             Some exists \<Rightarrow> filter (\<lambda>x. symptom x \<noteq> symptom s) prev
           | None \<Rightarrow> prev @ [s])\<rparr>"

text \<open>
  The test the symptoms view uses to draw a symptom as confirmed:
  \<^verbatim>\<open>confirmedSymptoms.find(s => s.symptom === symptom.symptom)\<close>.
\<close>

definition is_confirmed :: "symptom \<Rightarrow> app_state \<Rightarrow> bool" where
  "is_confirmed s st \<longleftrightarrow> find (\<lambda>x. symptom x = symptom s) (confirmedSymptoms st) \<noteq> None"

subsection \<open>Cause analysis\<close>

definition causes_prompt :: jsstring where
  "causes_prompt =
     str ''Analyze these symptoms and provide potential medical causes/conditions. Format as JSON: {\"causes\": [{\"condition\": \"name\", \"probability\": \"high|medium|low\", \"explanation\": \"why\", \"urgency\": \"immediate|soon|routine\"}]}''"

text \<open>
  \<^verbatim>\<open>allSymptoms\<close>: the confirmed names, then the comma-separated additional symptoms,
  trimmed, without the empty ones (\<^verbatim>\<open>filter(Boolean)\<close>).
\<close>

definition allSymptoms :: "app_state \<Rightarrow> jsstring list" where
  "allSymptoms st =
     map symptom (confirmedSymptoms st) @
     filter (\<lambda>s. s \<noteq> []) (map trim (split (cu CHR '','') (additionalSymptoms st)))"

text \<open>
  The \<^verbatim>\<open>try\<close> block of \<^verbatim>\<open>analyzeCauses\<close>. The \<^verbatim>\<open>if (jsonMatch)\<close> has no
  \<^verbatim>\<open>else\<close>: without a match the block ends normally. After
  \<^verbatim>\<open>setPotentialCauses(data)\<close> the log line reads \<^verbatim>\<open>data.causes\<close>, which throws on
  \<^verbatim>\<open>null\<close>.
\<close>

definition analyzeCauses_try ::
  "(relay_request \<Rightarrow> proxy_outcome) \<Rightarrow> app_state \<Rightarrow> js_error option \<times> app_state \<times> effect list" where
  "analyzeCauses_try fetch st =
     (case callClaude fetch causes_prompt
             (str ''Symptoms: '' @ join (str '', '') (allSymptoms st)) st of
        (Inl e, st1, fx) \<Rightarrow> (Some e, st1, fx)
      | (Inr response, st1, fx) \<Rightarrow>
          (case match_braces response of
             None \<Rightarrow> (None, st1, fx)
           | Some jsonMatch \<Rightarrow>
               (case JSON_parse jsonMatch of
                  None \<Rightarrow> (Some SyntaxError, st1, fx)
                | Some data \<Rightarrow>
                    (let st2 = st1\<lparr>potentialCauses := data\<rparr> in
                     if data = JNull then (Some TypeError, st2, fx)
                     else (None,
                           (addDebugLog (IdentifiedText data) Success st2)\<lparr>activeTab := Causes\<rparr>,
                           fx)))))"

text \<open>
  \<^verbatim>\<open>analyzeCauses\<close>: refuses with a dialog when no symptom is confirmed and the
  additional text is blank; otherwise as \<^verbatim>\<open>analyzeSymptoms\<close>.
\<close>

definition analyzeCauses ::
  "(relay_request \<Rightarrow> proxy_outcome) \<Rightarrow> app_state \<Rightarrow> app_state \<times> effect list" where
  "analyzeCauses fetch st =
     (if confirmedSymptoms st = [] \<and> trim (additionalSymptoms st) = [] then
        (st, [Alert (str ''Please confirm at least one symptom or add additional symptoms'')])
      else
        (let st1 = addDebugLog (Text (str ''Analyzing potential causes...'')) Info
                     (st\<lparr>loading := True\<rparr>)
         in case analyzeCauses_try fetch st1 of
              (None, st2, fx) \<Rightarrow> (st2\<lparr>loading := False\<rparr>, fx)
            | (Some e, st2, fx) \<Rightarrow>
                (st2\<lparr>loading := False\<rparr>,
                 fx @ [AlertError (str ''Failed to analyze causes: '') e])))"

section \<open>Facts about the string operations and the parser\<close>

subsection \<open>Trimming and matching\<close>

text \<open>
  \<^verbatim>\<open>!s.trim()\<close> holds exactly for the strings made of white space only (the empty
  string among them).
\<close>

lemma dropWhile_all_iff:
  "(\<forall>c\<in>set (dropWhile P s). P c) \<longleftrightarrow> (\<forall>c\<in>set s. P c)"
proof
  assume l: "\<forall>c\<in>set (dropWhile P s). P c"
  show "\<forall>c\<in>set s. P c"
  proof (cases "dropWhile P s")
    case Nil
    then show ?thesis by simp
  next
    case (Cons c cs)
    then have "\<not> P c" by (simp add: dropWhile_eq_Cons_conv)
    moreover from Cons l have "P c" by simp
    ultimately show ?thesis by simp
  qed
next
  assume "\<forall>c\<in>set s. P c"
  then show "\<forall>c\<in>set (dropWhile P s). P c"
    by (auto dest: set_dropWhileD)
qed

lemma trim_eq_Nil_iff: "trim s = [] \<longleftrightarrow> (\<forall>c\<in>set s. js_whitespace c)"
proof -
  have "trim s = [] \<longleftrightarrow> dropWhile js_whitespace (rev (dropWhile js_whitespace s)) = []"
    by (simp only: trim_def rev_is_Nil_conv)
  also have "\<dots> \<longleftrightarrow> (\<forall>c\<in>set (dropWhile js_whitespace s). js_whitespace c)"
    by (simp only: dropWhile_eq_Nil_conv set_rev)
  finally show ?thesis by (simp only: dropWhile_all_iff)
qed

text \<open>
  The match of \<open>match_delimited\<close> is the span from the first opening delimiter to the
  last closing delimiter of the text, and there is none exactly when no closing delimiter
  stands after the first opening one.
\<close>

lemma match_delimited_None_iff:
  "match_delimited l r s = None \<longleftrightarrow> r \<notin> set (tl (dropWhile (\<lambda>c. c \<noteq> l) s))"
proof (cases "dropWhile (\<lambda>c. c \<noteq> l) s")
  case Nil
  have "match_delimited l r s = None"
    by (simp only: match_delimited_def Nil list.case)
  moreover have "r \<notin> set (tl (dropWhile (\<lambda>c. c \<noteq> l) s))"
    by (simp only: Nil list.sel list.set empty_iff not_False_eq_True)
  ultimately show ?thesis by blast
next
  case (Cons a as)
  have t: "tl (dropWhile (\<lambda>c. c \<noteq> l) s) = as"
    by (simp only: Cons list.sel)
  show ?thesis
  proof (cases "dropWhile (\<lambda>c. c \<noteq> r) (rev as)")
    case Nil
    have "match_delimited l r s = None"
      by (simp only: match_delimited_def Cons Nil list.case)
    moreover from Nil have "r \<notin> set as" by auto
    ultimately show ?thesis using t by simp
  next
    case c2: (Cons b bs)
    have "match_delimited l r s \<noteq> None"
      by (simp only: match_delimited_def Cons c2 list.case) simp
    moreover have "r \<in> set as"
    proof (rule ccontr)
      assume "r \<notin> set as"
      then have "dropWhile (\<lambda>c. c \<noteq> r) (rev as) = []" by auto
      with c2 show False by simp
    qed
    ultimately show ?thesis using t by simp
  qed
qed

lemma dropWhile_neq_Cons:
  "dropWhile (\<lambda>c. c \<noteq> x) s = a # as \<Longrightarrow>
     a = x \<and> (\<exists>pre. s = pre @ x # as \<and> x \<notin> set pre)"
proof (induction s)
  case Nil
  then show ?case by simp
next
  case (Cons c cs)
  show ?case
  proof (cases "c = x")
    case True
    with Cons.prems show ?thesis by auto
  next
    case False
    with Cons obtain pre where "a = x" "cs = pre @ x # as" "x \<notin> set pre" by auto
    with False have "c # cs = (c # pre) @ x # as \<and> x \<notin> set (c # pre)" by simp
    with \<open>a = x\<close> show ?thesis by blast
  qed
qed

lemma match_delimited_Some:
  assumes "match_delimited l r s = Some m"
  shows "\<exists>pre mid suf. s = pre @ m @ suf \<and> m = l # mid @ [r] \<and> l \<notin> set pre \<and> r \<notin> set suf"
proof -
  from assms obtain a as b bs where
    d1: "dropWhile (\<lambda>c. c \<noteq> l) s = a # as" and
    d2: "dropWhile (\<lambda>c. c \<noteq> r) (rev as) = b # bs" and
    m: "m = a # rev bs @ [b]"
    by (auto simp: match_delimited_def split: list.splits)
  from dropWhile_neq_Cons [OF d1] obtain pre where
    o: "a = l" and s: "s = pre @ l # as" and pre: "l \<notin> set pre" by blast
  from dropWhile_neq_Cons [OF d2] obtain fus where
    c: "b = r" and a: "rev as = fus @ r # bs" and fus: "r \<notin> set fus" by blast
  from a have "rev (rev as) = rev (fus @ r # bs)" by (rule arg_cong)
  then have as: "as = rev bs @ r # rev fus" by simp
  have "s = pre @ m @ rev fus" by (simp add: s m o c as)
  moreover have "m = l # rev bs @ [r]" by (simp add: m o c)
  moreover have "r \<notin> set (rev fus)" using fus by simp
  ultimately show ?thesis using pre by blast
qed

lemma match_delimited_span:
  assumes "l \<notin> set pre" and "r \<notin> set suf"
  shows "match_delimited l r (pre @ l # mid @ r # suf) = Some (l # mid @ [r])"
proof -
  have 1: "dropWhile (\<lambda>c. c \<noteq> l) (pre @ l # mid @ r # suf) = l # mid @ r # suf"
    using assms(1) by (simp add: dropWhile_append)
  have 2: "dropWhile (\<lambda>c. c \<noteq> r) (rev (mid @ r # suf)) = r # rev mid"
    using assms(2) by (simp add: dropWhile_append)
  show ?thesis
    by (simp only: match_delimited_def 1 2 list.case rev_rev_ident)
qed

text \<open>
  In words: \<^verbatim>\<open>match\<close> finds nothing exactly when the text has no opening delimiter
  that is followed, anywhere later, by a closing one.
\<close>

lemma match_delimited_None_iff_no_span:
  "match_delimited l r s = None \<longleftrightarrow> \<not> (\<exists>pre mid suf. s = pre @ l # mid @ r # suf)"
proof
  assume n: "match_delimited l r s = None"
  show "\<not> (\<exists>pre mid suf. s = pre @ l # mid @ r # suf)"
  proof
    assume "\<exists>pre mid suf. s = pre @ l # mid @ r # suf"
    then obtain pre mid suf where s: "s = pre @ l # mid @ r # suf" by blast
    have "r \<in> set (tl (dropWhile (\<lambda>c. c \<noteq> l) s))"
    proof (cases "dropWhile (\<lambda>c. c \<noteq> l) pre")
      case Nil
      then have "\<forall>x\<in>set pre. x \<noteq> l" by simp
      then have "dropWhile (\<lambda>c. c \<noteq> l) (pre @ l # mid @ r # suf) = l # mid @ r # suf"
        by (simp add: dropWhile_append)
      then have "tl (dropWhile (\<lambda>c. c \<noteq> l) s) = mid @ r # suf"
        by (simp only: s list.sel)
      then show ?thesis by simp
    next
      case (Cons a as)
      have ne: "\<not> (\<forall>x\<in>set pre. x \<noteq> l)"
      proof
        assume "\<forall>x\<in>set pre. x \<noteq> l"
        then have "dropWhile (\<lambda>c. c \<noteq> l) pre = []" by auto
        with Cons show False by simp
      qed
      have "dropWhile (\<lambda>c. c \<noteq> l) (pre @ l # mid @ r # suf) =
              dropWhile (\<lambda>c. c \<noteq> l) pre @ l # mid @ r # suf"
        using ne by (simp only: dropWhile_append if_False)
      then have "tl (dropWhile (\<lambda>c. c \<noteq> l) s) = as @ l # mid @ r # suf"
        by (simp only: s Cons append_Cons list.sel)
      then show ?thesis by simp
    qed
    with n show False by (simp add: match_delimited_None_iff)
  qed
next
  assume n: "\<not> (\<exists>pre mid suf. s = pre @ l # mid @ r # suf)"
  show "match_delimited l r s = None"
  proof (cases "match_delimited l r s")
    case None
    then show ?thesis .
  next
    case (Some m)
    from match_delimited_Some [OF Some] obtain pre mid suf where
      "s = pre @ m @ suf" "m = l # mid @ [r]" by blast
    then have "s = pre @ l # mid @ r # suf" by simp
    with n show ?thesis by blast
  qed
qed

subsection \<open>The outermost container of a parsed text\<close>

text \<open>
  A text that begins with \<^verbatim>\<open>[\<close> parses, if at all, to an array, and one that begins
  with \<^verbatim>\<open>{\<close> to an object. The invariant of the automaton: \<open>outermost arr st\<close> says
  that the container at the bottom of the stack (or the one being opened or closed on an
  empty stack, or the finished value) is an array when \<open>arr\<close> holds and an object
  otherwise.
\<close>

fun is_array_frame :: "frame \<Rightarrow> bool" where
  "is_array_frame (InArray vs) = True"
| "is_array_frame (InObject ms k) = False"

definition bottom_ok :: "bool \<Rightarrow> frame list \<Rightarrow> bool" where
  "bottom_ok arr stk \<longleftrightarrow> stk \<noteq> [] \<and> is_array_frame (last stk) = arr"

fun is_container :: "bool \<Rightarrow> json \<Rightarrow> bool" where
  "is_container arr (JArray vs) = arr"
| "is_container arr (JObject ms) = (\<not> arr)"
| "is_container arr _ = False"

fun outermost :: "bool \<Rightarrow> pstate \<Rightarrow> bool" where
  "outermost arr (PValue stk) = bottom_ok arr stk"
| "outermost arr (PArrayStart stk) = (if stk = [] then arr else bottom_ok arr stk)"
| "outermost arr (PObjectStart stk) = (if stk = [] then \<not> arr else bottom_ok arr stk)"
| "outermost arr (PArrayNext vs stk) = (if stk = [] then arr else bottom_ok arr stk)"
| "outermost arr (PObjectNext ms stk) = (if stk = [] then \<not> arr else bottom_ok arr stk)"
| "outermost arr (PKey ms stk) = (if stk = [] then \<not> arr else bottom_ok arr stk)"
| "outermost arr (PColon ms k stk) = (if stk = [] then \<not> arr else bottom_ok arr stk)"
| "outermost arr (PDone v) = is_container arr v"

lemma outermost_complete:
  "bottom_ok arr stk \<Longrightarrow> outermost arr (complete v stk)"
  by (cases "(v, stk)" rule: complete.cases) (auto simp: bottom_ok_def split: if_splits)

lemma outermost_start_value:
  "bottom_ok arr stk \<Longrightarrow> start_value stk t = Some st' \<Longrightarrow> outermost arr st'"
  by (cases t) (auto simp: outermost_complete bottom_ok_def)

lemma outermost_pstep:
  assumes "outermost arr st" and "pstep st t = Some st'"
  shows "outermost arr st'"
proof (cases st)
  case (PValue stk)
  with assms show ?thesis by (auto intro: outermost_start_value)
next
  case (PArrayStart stk)
  show ?thesis
  proof (cases "t = RBracket")
    case True
    with assms PArrayStart show ?thesis
      by (cases stk) (auto simp: outermost_complete split: if_splits)
  next
    case False
    have "bottom_ok arr (InArray [] # stk)"
      using assms(1) PArrayStart by (auto simp: bottom_ok_def split: if_splits)
    with assms PArrayStart False show ?thesis
      by (auto intro: outermost_start_value)
  qed
next
  case (PObjectStart stk)
  with assms show ?thesis
    by (cases stk; cases t) (auto simp: outermost_complete bottom_ok_def split: if_splits)
next
  case (PArrayNext vs stk)
  with assms show ?thesis
    by (cases stk; cases t) (auto simp: outermost_complete bottom_ok_def split: if_splits)
next
  case (PObjectNext ms stk)
  with assms show ?thesis
    by (cases stk; cases t) (auto simp: outermost_complete bottom_ok_def split: if_splits)
next
  case (PKey ms stk)
  with assms show ?thesis
    by (cases stk; cases t) (auto simp: bottom_ok_def split: if_splits)
next
  case (PColon ms k stk)
  with assms show ?thesis
    by (cases stk; cases t) (auto simp: bottom_ok_def split: if_splits)
next
  case (PDone v)
  with assms show ?thesis by simp
qed

lemma outermost_parse_tokens:
  "outermost arr st \<Longrightarrow> parse_tokens st ts = Some v \<Longrightarrow> is_container arr v"
proof (induction ts arbitrary: st)
  case Nil
  then show ?case by (cases st) auto
next
  case (Cons t ts)
  then show ?case
    by (auto split: option.splits dest: outermost_pstep)
qed

lemma JSON_parse_bracket:
  assumes "JSON_parse (cu CHR ''['' # rest) = Some v"
  shows "\<exists>vs. v = JArray vs"
proof -
  from assms obtain ts where t: "tokenize rest = Some ts"
    and p: "parse_tokens (PValue []) (LBracket # ts) = Some v"
    by (auto simp: JSON_parse_def cu_def json_whitespace_def split: option.splits)
  from p have "parse_tokens (PArrayStart []) ts = Some v" by simp
  then have "is_container True v"
    by (rule outermost_parse_tokens [rotated]) simp
  then show ?thesis by (cases v) auto
qed

lemma JSON_parse_brace:
  assumes "JSON_parse (cu CHR ''{'' # rest) = Some v"
  shows "\<exists>ms. v = JObject ms"
proof -
  from assms obtain ts where t: "tokenize rest = Some ts"
    and p: "parse_tokens (PValue []) (LBrace # ts) = Some v"
    by (auto simp: JSON_parse_def cu_def json_whitespace_def split: option.splits)
  from p have "parse_tokens (PObjectStart []) ts = Some v" by simp
  then have "is_container False v"
    by (rule outermost_parse_tokens [rotated]) simp
  then show ?thesis by (cases v) auto
qed

section \<open>Properties of the relay service\<close>

subsection \<open>Concrete requests and upstream behaviours\<close>

text \<open>
  A minimal request with a credential; an upstream that cannot be reached, one that
  refuses the credential with the API's JSON error body, and one (a gateway in front of
  the API) that answers 502 with an HTML page, on which \<^verbatim>\<open>response.json()\<close> rejects.
\<close>

definition minimal_request :: relay_request where
  "minimal_request =
     \<lparr>apiKey = Some (str ''sk-test''),
      messages = Some [\<lparr>role = str ''user'', content = str ''Hello''\<rparr>],
      system = None, model = None, max_tokens = None\<rparr>"

definition upstream_unreachable :: "upstream_call \<Rightarrow> upstream_outcome" where
  "upstream_unreachable call = FetchRejects (str ''fetch failed'')"

definition authentication_error :: json where
  "authentication_error =
     JObject [(str ''type'', JString (str ''error'')),
              (str ''error'', JObject [(str ''type'', JString (str ''authentication_error'')),
                                       (str ''message'', JString (str ''invalid x-api-key''))])]"

definition upstream_unauthorized :: "upstream_call \<Rightarrow> upstream_outcome" where
  "upstream_unauthorized call = UpstreamResponse 401 (Inr authentication_error)"

definition upstream_bad_gateway :: "upstream_call \<Rightarrow> upstream_outcome" where
  "upstream_bad_gateway call = UpstreamResponse 502 (Inl (str ''Unexpected token < in JSON at position 0''))"

definition falsy_options_request :: relay_request where
  "falsy_options_request = minimal_request\<lparr>model := Some (str ''''), max_tokens := Some 0\<rparr>"

definition chosen_options_request :: relay_request where
  "chosen_options_request =
     minimal_request\<lparr>model := Some (str ''claude-3-haiku''), max_tokens := Some 256\<rparr>"

subsection \<open>The two branches of the credential check\<close>

lemma relay_without_credential:
  "apiKey req = None \<or> apiKey req = Some [] \<Longrightarrow> relay fetch req = (api_key_required, [])"
  by (auto simp: relay_def relay_try_def)

lemma relay_try_with_credential:
  "apiKey req = Some k \<Longrightarrow> k \<noteq> [] \<Longrightarrow>
   relay_try fetch req =
     (case fetch (anthropic_call k req) of
        FetchRejects m \<Rightarrow> Inl m
      | UpstreamResponse st parsed \<Rightarrow>
          (case parsed of
             Inl m \<Rightarrow> Inl m
           | Inr v \<Rightarrow> if \<not> response_ok st then Inr \<lparr>status = st, body = v\<rparr>
                     else if v = JNull then Inl null_usage_message
                     else Inr \<lparr>status = 200, body = v\<rparr>),
      [anthropic_call k req])"
  by (simp add: relay_try_def Let_def split: upstream_outcome.splits sum.splits)

text \<open>
  The \<^verbatim>\<open>try\<close> block throws in exactly three situations, all after the credential check:
  \<^verbatim>\<open>fetch\<close> rejects, \<^verbatim>\<open>response.json()\<close> rejects, or a successful response has the
  body \<^verbatim>\<open>null\<close>.
\<close>

lemma relay_try_throws_iff:
  "fst (relay_try fetch req) = Inl m \<longleftrightarrow>
     (\<exists>k. apiKey req = Some k \<and> k \<noteq> [] \<and>
          (fetch (anthropic_call k req) = FetchRejects m \<or>
           (\<exists>st. fetch (anthropic_call k req) = UpstreamResponse st (Inl m)) \<or>
           (\<exists>st. response_ok st \<and> fetch (anthropic_call k req) = UpstreamResponse st (Inr JNull) \<and>
                 m = null_usage_message)))"
  by (auto simp: relay_try_def Let_def api_key_required_def
           split: option.splits upstream_outcome.splits sum.splits if_splits)

subsection \<open>Missing credential\<close>

text \<open>
  \<^bold>\<open>Claim C1.\<close> For every relay request whose body lacks the credential field
  (\<^verbatim>\<open>apiKey\<close> is \<^verbatim>\<open>undefined\<close>), whatever the upstream would do, the relay answers
  with status 400 and the JSON error body \<^verbatim>\<open>{ error: 'API key is required' }\<close>, and makes
  no call to the upstream API.
\<close>

theorem relay_missing_credential:
  assumes "apiKey req = None"
  shows "relay fetch req =
           (\<lparr>status = 400, body = JObject [(str ''error'', JString (str ''API key is required''))]\<rparr>, [])"
  using assms relay_without_credential [of req fetch] by (simp add: api_key_required_def)

theorem relay_missing_credential_witness:
  "apiKey (minimal_request\<lparr>apiKey := None\<rparr>) = None \<and>
   relay upstream_unauthorized (minimal_request\<lparr>apiKey := None\<rparr>) =
     (\<lparr>status = 400, body = JObject [(str ''error'', JString (str ''API key is required''))]\<rparr>, [])"
  using relay_missing_credential [of "minimal_request\<lparr>apiKey := None\<rparr>" upstream_unauthorized]
  by simp

text \<open>
  \<^bold>\<open>Claim C10.\<close> A credential field that is present but is the empty string is treated
  as missing, since the check \<^verbatim>\<open>!apiKey\<close> is on truthiness: status 400, the same error
  body, and no call to the upstream API.
\<close>

theorem relay_empty_credential:
  assumes "apiKey req = Some []"
  shows "relay fetch req =
           (\<lparr>status = 400, body = JObject [(str ''error'', JString (str ''API key is required''))]\<rparr>, [])"
  using assms relay_without_credential [of req fetch] by (simp add: api_key_required_def)

theorem relay_empty_credential_witness:
  "apiKey (minimal_request\<lparr>apiKey := Some (str '''')\<rparr>) = Some [] \<and>
   relay upstream_unauthorized (minimal_request\<lparr>apiKey := Some (str '''')\<rparr>) =
     (\<lparr>status = 400, body = JObject [(str ''error'', JString (str ''API key is required''))]\<rparr>, [])"
  using relay_empty_credential [of "minimal_request\<lparr>apiKey := Some (str '''')\<rparr>" upstream_unauthorized]
  by (simp add: str_def)

subsection \<open>Upstream failure\<close>

text \<open>
  \<^bold>\<open>Claim C2\<close> says that whenever the upstream call completes with a non-success status,
  the relay answers with exactly that status and the upstream error body. This fails when
  the upstream error body is not JSON: \<^verbatim>\<open>await response.json()\<close> then rejects inside the
  \<^verbatim>\<open>try\<close> block and the \<^verbatim>\<open>catch\<close> block answers 500. At the request below the
  upstream status is 502 and the relay's status is 500.
\<close>

theorem relay_upstream_error_counterexample:
  "apiKey minimal_request = Some (str ''sk-test'') \<and>
   upstream_bad_gateway (anthropic_call (str ''sk-test'') minimal_request) =
     UpstreamResponse 502 (Inl (str ''Unexpected token < in JSON at position 0'')) \<and>
   \<not> response_ok 502 \<and>
   status (fst (relay upstream_bad_gateway minimal_request)) = 500 \<and>
   relay upstream_bad_gateway minimal_request =
     (server_error (str ''Unexpected token < in JSON at position 0''),
      [anthropic_call (str ''sk-test'') minimal_request])"
proof -
  have 1: "apiKey minimal_request = Some (str ''sk-test'')" by (simp add: minimal_request_def)
  have 2: "str ''sk-test'' \<noteq> []" by (simp add: str_def)
  show ?thesis
    by (simp add: relay_def relay_try_with_credential [OF 1 2] 1 upstream_bad_gateway_def
        response_ok_def server_error_def)
qed

text \<open>
  \<^bold>\<open>Claim C2, amended.\<close> For every relay request with a (non-empty) credential, when the
  upstream call completes with a non-success status and a body that parses as JSON, the
  relay answers with exactly that status code and that parsed body, after one upstream
  call.
\<close>

theorem relay_forwards_upstream_error:
  assumes "apiKey req = Some k" and "k \<noteq> []"
    and "fetch (anthropic_call k req) = UpstreamResponse st (Inr errorData)"
    and "\<not> response_ok st"
  shows "relay fetch req = (\<lparr>status = st, body = errorData\<rparr>, [anthropic_call k req])"
  using assms by (simp add: relay_def relay_try_with_credential)

theorem relay_forwards_upstream_error_witness:
  "apiKey minimal_request = Some (str ''sk-test'') \<and> str ''sk-test'' \<noteq> [] \<and>
   upstream_unauthorized (anthropic_call (str ''sk-test'') minimal_request) =
     UpstreamResponse 401 (Inr authentication_error) \<and>
   \<not> response_ok 401 \<and>
   relay upstream_unauthorized minimal_request =
     (\<lparr>status = 401, body = authentication_error\<rparr>, [anthropic_call (str ''sk-test'') minimal_request])"
proof -
  have 1: "apiKey minimal_request = Some (str ''sk-test'')" by (simp add: minimal_request_def)
  have 2: "str ''sk-test'' \<noteq> []" by (simp add: str_def)
  have 3: "upstream_unauthorized (anthropic_call (str ''sk-test'') minimal_request) =
     UpstreamResponse 401 (Inr authentication_error)" by (simp add: upstream_unauthorized_def)
  have 4: "\<not> response_ok 401" by (simp add: response_ok_def)
  from relay_forwards_upstream_error [where fetch = upstream_unauthorized, OF 1 2 3 4] 1 2 3 4
  show ?thesis by simp
qed

subsection \<open>The forwarded call\<close>

text \<open>
  \<^bold>\<open>Claim C3\<close> says that the forwarded payload carries the caller's model identifier and
  token limit whenever they are supplied. The defaults are substituted with
  \<^verbatim>\<open>model || '...'\<close> and \<^verbatim>\<open>max_tokens || 4096\<close>, which also replace a supplied value
  that is falsy: at the request below the caller supplies the model \<^verbatim>\<open>""\<close> and the limit
  \<^verbatim>\<open>0\<close>, and the payload carries the default model and 4096.
\<close>

theorem relay_forwarded_call_counterexample:
  "apiKey falsy_options_request = Some (str ''sk-test'') \<and>
   model falsy_options_request = Some [] \<and>
   max_tokens falsy_options_request = Some 0 \<and>
   map (payload_model \<circ> payload) (snd (relay upstream_unauthorized falsy_options_request)) =
     [str ''claude-sonnet-4-20250514''] \<and>
   map (payload_max_tokens \<circ> payload) (snd (relay upstream_unauthorized falsy_options_request)) =
     [4096]"
proof -
  have 1: "apiKey falsy_options_request = Some (str ''sk-test'')"
    by (simp add: falsy_options_request_def minimal_request_def)
  have 2: "str ''sk-test'' \<noteq> []" by (simp add: str_def)
  have m: "model falsy_options_request = Some []" "max_tokens falsy_options_request = Some 0"
    by (simp_all add: falsy_options_request_def str_def)
  show ?thesis
    by (simp add: 1 m relay_def relay_try_with_credential [OF 1 2] upstream_unauthorized_def
          response_ok_def anthropic_call_def string_or_def number_or_def)
qed

text \<open>
  \<^bold>\<open>Claim C3, amended.\<close> For every relay request with a (non-empty) credential, the relay
  makes one upstream call, to the messages endpoint, whose headers are the content type,
  \<^verbatim>\<open>x-api-key\<close> with the credential and \<^verbatim>\<open>anthropic-version\<close> \<^verbatim>\<open>2023-06-01\<close>, and
  whose payload carries the caller's model identifier when it is supplied and non-empty,
  the caller's token limit when it is supplied and non-zero, the default model name and
  the default limit 4096 otherwise, and the caller's system instruction and message list
  as they are.
\<close>

theorem relay_forwarded_call:
  assumes "apiKey req = Some k" and "k \<noteq> []"
  shows "snd (relay fetch req) = [anthropic_call k req] \<and>
         url (anthropic_call k req) = str ''https://api.anthropic.com/v1/messages'' \<and>
         headers (anthropic_call k req) =
           [(str ''Content-Type'', str ''application/json''),
            (str ''x-api-key'', k),
            (str ''anthropic-version'', str ''2023-06-01'')] \<and>
         payload_model (payload (anthropic_call k req)) =
           (case model req of
              None \<Rightarrow> str ''claude-sonnet-4-20250514''
            | Some m \<Rightarrow> if m = [] then str ''claude-sonnet-4-20250514'' else m) \<and>
         payload_max_tokens (payload (anthropic_call k req)) =
           (case max_tokens req of
              None \<Rightarrow> 4096
            | Some n \<Rightarrow> if n = 0 then 4096 else n) \<and>
         payload_system (payload (anthropic_call k req)) = system req \<and>
         payload_messages (payload (anthropic_call k req)) = messages req"
proof -
  have "snd (relay fetch req) = [anthropic_call k req]"
    using assms
    by (simp add: relay_def relay_try_with_credential
             split: upstream_outcome.splits sum.splits prod.splits)
  moreover have "payload_model (payload (anthropic_call k req)) =
           (case model req of
              None \<Rightarrow> str ''claude-sonnet-4-20250514''
            | Some m \<Rightarrow> if m = [] then str ''claude-sonnet-4-20250514'' else m)"
    by (simp add: anthropic_call_def string_or_def split: option.splits)
  moreover have "payload_max_tokens (payload (anthropic_call k req)) =
           (case max_tokens req of
              None \<Rightarrow> 4096
            | Some n \<Rightarrow> if n = 0 then 4096 else n)"
    by (simp add: anthropic_call_def number_or_def split: option.splits)
  ultimately show ?thesis
    by (simp add: anthropic_call_def)
qed

theorem relay_forwarded_call_witness:
  "apiKey chosen_options_request = Some (str ''sk-test'') \<and> str ''sk-test'' \<noteq> [] \<and>
   snd (relay upstream_unauthorized chosen_options_request) =
     [anthropic_call (str ''sk-test'') chosen_options_request] \<and>
   headers (anthropic_call (str ''sk-test'') chosen_options_request) =
     [(str ''Content-Type'', str ''application/json''),
      (str ''x-api-key'', str ''sk-test''),
      (str ''anthropic-version'', str ''2023-06-01'')] \<and>
   payload_model (payload (anthropic_call (str ''sk-test'') chosen_options_request)) =
     str ''claude-3-haiku'' \<and>
   payload_max_tokens (payload (anthropic_call (str ''sk-test'') chosen_options_request)) = 256 \<and>
   payload_model (payload (anthropic_call (str ''sk-test'') minimal_request)) =
     str ''claude-sonnet-4-20250514'' \<and>
   payload_max_tokens (payload (anthropic_call (str ''sk-test'') minimal_request)) = 4096"
proof -
  have c1: "apiKey chosen_options_request = Some (str ''sk-test'')"
    by (simp add: chosen_options_request_def minimal_request_def)
  have c2: "apiKey minimal_request = Some (str ''sk-test'')"
    by (simp add: minimal_request_def)
  have c3: "str ''sk-test'' \<noteq> []" by (simp add: str_def)
  have m: "model chosen_options_request = Some (str ''claude-3-haiku'')"
          "max_tokens chosen_options_request = Some 256"
          "model minimal_request = None" "max_tokens minimal_request = None"
    by (simp_all add: chosen_options_request_def minimal_request_def)
  have c4: "str ''claude-3-haiku'' \<noteq> []" by (simp add: str_def)
  from relay_forwarded_call [where fetch = upstream_unauthorized, OF c1 c3]
       relay_forwarded_call [where fetch = upstream_unauthorized, OF c2 c3]
  show ?thesis using c1 c3 c4 by (simp add: m)
qed

subsection \<open>Local exceptions\<close>

text \<open>
  \<^bold>\<open>Claim C4.\<close> For every relay request on which the \<^verbatim>\<open>try\<close> block throws, the
  exception does not leave the handler: the relay answers with status 500 and the body
  \<^verbatim>\<open>{ error: { message: <the exception's message>, type: 'server_error' } }\<close>. In
  particular this is the answer, after the one upstream call, whenever the \<^verbatim>\<open>fetch\<close> to
  the upstream endpoint fails.
\<close>

theorem relay_local_exception:
  "(relay_try fetch req = (Inl m, calls) \<longrightarrow>
      relay fetch req =
        (\<lparr>status = 500,
          body = JObject [(str ''error'',
                           JObject [(str ''message'', JString m),
                                    (str ''type'', JString (str ''server_error''))])]\<rparr>,
         calls)) \<and>
   (apiKey req = Some k \<and> k \<noteq> [] \<and> fetch (anthropic_call k req) = FetchRejects m \<longrightarrow>
      relay fetch req =
        (\<lparr>status = 500,
          body = JObject [(str ''error'',
                           JObject [(str ''message'', JString m),
                                    (str ''type'', JString (str ''server_error''))])]\<rparr>,
         [anthropic_call k req]))"
  by (simp add: relay_def server_error_def relay_try_with_credential)

theorem relay_local_exception_witness:
  "relay_try upstream_unreachable minimal_request =
     (Inl (str ''fetch failed''), [anthropic_call (str ''sk-test'') minimal_request]) \<and>
   apiKey minimal_request = Some (str ''sk-test'') \<and> str ''sk-test'' \<noteq> [] \<and>
   upstream_unreachable (anthropic_call (str ''sk-test'') minimal_request) =
     FetchRejects (str ''fetch failed'') \<and>
   relay upstream_unreachable minimal_request =
     (\<lparr>status = 500,
       body = JObject [(str ''error'',
                        JObject [(str ''message'', JString (str ''fetch failed'')),
                                 (str ''type'', JString (str ''server_error''))])]\<rparr>,
      [anthropic_call (str ''sk-test'') minimal_request])"
proof -
  have 1: "apiKey minimal_request = Some (str ''sk-test'')" by (simp add: minimal_request_def)
  have 2: "str ''sk-test'' \<noteq> []" by (simp add: str_def)
  have 3: "relay_try upstream_unreachable minimal_request =
     (Inl (str ''fetch failed''), [anthropic_call (str ''sk-test'') minimal_request])"
    by (simp add: relay_try_with_credential [OF 1 2] upstream_unreachable_def)
  have 4: "upstream_unreachable (anthropic_call (str ''sk-test'') minimal_request) =
     FetchRejects (str ''fetch failed'')"
    by (simp add: upstream_unreachable_def)
  from relay_local_exception [where fetch = upstream_unreachable and req = minimal_request
         and m = "str ''fetch failed''" and k = "str ''sk-test''"
         and calls = "[anthropic_call (str ''sk-test'') minimal_request]"] 1 2 3 4
  show ?thesis by simp
qed

section \<open>Properties of the workflow controller\<close>

subsection \<open>The requests of the two analyses\<close>

text \<open>
  The request \<^verbatim>\<open>analyzeSymptoms\<close> posts for the state it is invoked in, and the one
  \<^verbatim>\<open>analyzeCauses\<close> posts.
\<close>

definition symptoms_request :: "app_state \<Rightarrow> relay_request" where
  "symptoms_request st =
     claude_request (apiKey' st) symptoms_prompt (str ''Medical Data:'' @ [0x0A] @ medicalData st)"

definition causes_request :: "app_state \<Rightarrow> relay_request" where
  "causes_request st =
     claude_request (apiKey' st) causes_prompt
       (str ''Symptoms: '' @ join (str '', '') (allSymptoms st))"

subsection \<open>Concrete states and replies\<close>

text \<open>
  The component after it has loaded a stored credential; the same with a pasted report;
  the symptoms stage after an analysis found one symptom, without and with that symptom
  confirmed; the upload stage with the result of an earlier analysis; and the symptoms
  stage with blank additional text. \<open>reply_with text\<close> is a relay that answers 200 with
  \<open>text\<close> as the assistant's reply.
\<close>

definition ready_state :: app_state where
  "ready_state =
     \<lparr>activeTab = Upload, apiKey' = str ''sk-test'', tempApiKey = [], showApiKeyInput = False,
      pdfText = [], manualText = [], loading = False,
      debugLogs = [\<lparr>log_message = Text (str ''API Key loaded from storage''), log_type = Success\<rparr>],
      extractedSymptoms = JArray [], confirmedSymptoms = [], additionalSymptoms = [],
      potentialCauses = JNull, solutions = JNull, activeChatSource = JNull,
      chatMessages = [], chatInput = [], expandedSources = []\<rparr>"

definition pasted_state :: app_state where
  "pasted_state = ready_state\<lparr>manualText := str ''Hemoglobin: 8.2 g/dL (low)''\<rparr>"

definition hemoglobin_object :: jsstring where
  "hemoglobin_object =
     str ''{\"symptom\":\"Low hemoglobin\",\"severity\":\"moderate\",\"source\":\"Hemoglobin: 8.2 g/dL\"}''"

definition hemoglobin_json :: json where
  "hemoglobin_json =
     JObject [(str ''symptom'', JString (str ''Low hemoglobin'')),
              (str ''severity'', JString (str ''moderate'')),
              (str ''source'', JString (str ''Hemoglobin: 8.2 g/dL''))]"

definition low_hemoglobin :: symptom where
  "low_hemoglobin =
     \<lparr>symptom = str ''Low hemoglobin'', severity = str ''moderate'',
      source = str ''Hemoglobin: 8.2 g/dL''\<rparr>"

definition symptoms_state :: app_state where
  "symptoms_state =
     pasted_state\<lparr>activeTab := Symptoms, extractedSymptoms := JArray [hemoglobin_json]\<rparr>"

definition confirmed_state :: app_state where
  "confirmed_state = symptoms_state\<lparr>confirmedSymptoms := [low_hemoglobin]\<rparr>"

definition reply_with :: "jsstring \<Rightarrow> relay_request \<Rightarrow> proxy_outcome" where
  "reply_with text request =
     Responds 200 (Inr \<lparr>error_message = None, content_texts = [text],
                        usage_tokens = Some (120, 45)\<rparr>)"

definition hemoglobin_reply :: jsstring where
  "hemoglobin_reply = cu CHR ''['' # hemoglobin_object @ [cu CHR '']'']"

definition reanalysed_state :: app_state where
  "reanalysed_state = pasted_state\<lparr>extractedSymptoms := JArray [hemoglobin_json]\<rparr>"

definition blank_state :: app_state where
  "blank_state = symptoms_state\<lparr>additionalSymptoms := str ''  '' @ [0x09, 0x0A]\<rparr>"

subsection \<open>Logging keeps the workflow data\<close>

lemma addDebugLog_fields [simp]:
  "activeTab (addDebugLog m t st) = activeTab st"
  "apiKey' (addDebugLog m t st) = apiKey' st"
  "pdfText (addDebugLog m t st) = pdfText st"
  "manualText (addDebugLog m t st) = manualText st"
  "loading (addDebugLog m t st) = loading st"
  "extractedSymptoms (addDebugLog m t st) = extractedSymptoms st"
  "confirmedSymptoms (addDebugLog m t st) = confirmedSymptoms st"
  "additionalSymptoms (addDebugLog m t st) = additionalSymptoms st"
  "potentialCauses (addDebugLog m t st) = potentialCauses st"
  "debugLogs (addDebugLog m t st) = debugLogs st @ [\<lparr>log_message = m, log_type = t\<rparr>]"
  by (simp_all add: addDebugLog_def)

lemma medicalData_cong [simp]:
  "medicalData (addDebugLog m t st) = medicalData st"
  "medicalData (st\<lparr>loading := b\<rparr>) = medicalData st"
  by (simp_all add: medicalData_def)

lemma allSymptoms_cong [simp]:
  "allSymptoms (addDebugLog m t st) = allSymptoms st"
  "allSymptoms (st\<lparr>loading := b\<rparr>) = allSymptoms st"
  by (simp_all add: allSymptoms_def)

subsection \<open>The call to the relay\<close>

text \<open>
  With a stored credential, a response with a success status and a first content text,
  \<^verbatim>\<open>callClaude\<close> returns that text after one request. Whatever happens, it posts at
  most that one request and changes nothing but the debug log.
\<close>

lemma callClaude_success:
  assumes "apiKey' st \<noteq> []"
    and "fetch (claude_request (apiKey' st) prompt context) = Responds code (Inr data)"
    and "response_ok code"
    and "content_texts data = text # others"
  shows "callClaude fetch prompt context st =
           (Inr text,
            addDebugLog (TokensText (usage_tokens data)) Success
              (addDebugLog (Text (str ''Making API call via proxy...'')) Info st),
            [Fetch (claude_request (apiKey' st) prompt context)])"
  using assms by (simp add: callClaude_def callClaude_try_def Let_def)

lemma callClaude_effects:
  "snd (snd (callClaude fetch prompt context st)) =
     (if apiKey' st = [] then [] else [Fetch (claude_request (apiKey' st) prompt context)])"
  by (simp add: callClaude_def Let_def split: prod.splits sum.splits)

lemma callClaude_state:
  "activeTab (fst (snd (callClaude fetch prompt context st))) = activeTab st"
  "extractedSymptoms (fst (snd (callClaude fetch prompt context st))) = extractedSymptoms st"
  "potentialCauses (fst (snd (callClaude fetch prompt context st))) = potentialCauses st"
  "confirmedSymptoms (fst (snd (callClaude fetch prompt context st))) = confirmedSymptoms st"
  by (auto simp: callClaude_def callClaude_try_def Let_def
           split: prod.splits sum.splits proxy_outcome.splits list.splits if_splits)

lemma callClaude_keeps:
  assumes "callClaude fetch prompt ctx st = (r, st', fx)"
  shows "activeTab st' = activeTab st"
    and "extractedSymptoms st' = extractedSymptoms st"
    and "potentialCauses st' = potentialCauses st"
    and "confirmedSymptoms st' = confirmedSymptoms st"
  using callClaude_state [of fetch prompt ctx st] assms by simp_all

subsection \<open>What the analyses do with a reply\<close>

text \<open>
  The outcome of \<^verbatim>\<open>analyzeSymptoms\<close> once the relay has delivered a reply text: it
  depends on the bracket match and on \<^verbatim>\<open>JSON.parse\<close> of the matched text only.
\<close>

lemma analyzeSymptoms_reply:
  assumes "trim (medicalData st) \<noteq> []"
    and "apiKey' st \<noteq> []"
    and "fetch (symptoms_request st) = Responds code (Inr data)"
    and "response_ok code"
    and "content_texts data = reply # others"
  shows "analyzeSymptoms fetch st =
           (let st2 = addDebugLog (TokensText (usage_tokens data)) Success
                        (addDebugLog (Text (str ''Making API call via proxy...'')) Info
                          (addDebugLog (Text (str ''Analyzing medical data for symptoms...'')) Info
                            (st\<lparr>loading := True\<rparr>)));
                failed = (\<lambda>e. [Fetch (symptoms_request st),
                                 AlertError (str ''Failed to analyze symptoms: '') e])
            in case match_brackets reply of
                 None \<Rightarrow> (st2\<lparr>loading := False\<rparr>,
                          failed (Error (str ''Could not parse symptoms from response'')))
               | Some span \<Rightarrow>
                   (case JSON_parse span of
                      None \<Rightarrow> (st2\<lparr>loading := False\<rparr>, failed SyntaxError)
                    | Some symptoms \<Rightarrow>
                        if symptoms = JNull
                        then (st2\<lparr>extractedSymptoms := symptoms, loading := False\<rparr>,
                              failed TypeError)
                        else ((addDebugLog (ExtractedText symptoms) Success
                                 (st2\<lparr>extractedSymptoms := symptoms\<rparr>))\<lparr>loading := False\<rparr>,
                              [Fetch (symptoms_request st)])))"
proof -
  define st1 where "st1 = addDebugLog (Text (str ''Analyzing medical data for symptoms...'')) Info
                            (st\<lparr>loading := True\<rparr>)"
  have k: "apiKey' st1 = apiKey' st" and m: "medicalData st1 = medicalData st"
    by (simp_all add: st1_def)
  have r: "claude_request (apiKey' st1) symptoms_prompt
             (str ''Medical Data:'' @ [0x0A] @ medicalData st1) = symptoms_request st"
    by (simp add: symptoms_request_def k m)
  have c: "callClaude fetch symptoms_prompt (str ''Medical Data:'' @ [0x0A] @ medicalData st1) st1 =
             (Inr reply,
              addDebugLog (TokensText (usage_tokens data)) Success
                (addDebugLog (Text (str ''Making API call via proxy...'')) Info st1),
              [Fetch (symptoms_request st)])"
    using callClaude_success [of st1 fetch symptoms_prompt
            "str ''Medical Data:'' @ [0x0A] @ medicalData st1" code data reply others]
          assms k r
    by simp
  have t: "analyzeSymptoms_try fetch st1 =
          (let st2 = addDebugLog (TokensText (usage_tokens data)) Success
                       (addDebugLog (Text (str ''Making API call via proxy...'')) Info st1);
               fx = [Fetch (symptoms_request st)]
           in case match_brackets reply of
                None \<Rightarrow> (Some (Error (str ''Could not parse symptoms from response'')), st2, fx)
              | Some span \<Rightarrow>
                  (case JSON_parse span of
                     None \<Rightarrow> (Some SyntaxError, st2, fx)
                   | Some symptoms \<Rightarrow>
                       if symptoms = JNull
                       then (Some TypeError, st2\<lparr>extractedSymptoms := symptoms\<rparr>, fx)
                       else (None,
                             addDebugLog (ExtractedText symptoms) Success
                               (st2\<lparr>extractedSymptoms := symptoms\<rparr>),
                             fx)))"
    unfolding analyzeSymptoms_try_def c
    by (simp add: Let_def split: option.splits)
  have h: "analyzeSymptoms fetch st =
          (case analyzeSymptoms_try fetch st1 of
              (None, st2, fx) \<Rightarrow> (st2\<lparr>loading := False\<rparr>, fx)
            | (Some e, st2, fx) \<Rightarrow>
                (st2\<lparr>loading := False\<rparr>,
                 fx @ [AlertError (str ''Failed to analyze symptoms: '') e]))"
    using assms(1) by (simp add: analyzeSymptoms_def st1_def Let_def)
  show ?thesis
    unfolding h t
    by (simp add: st1_def Let_def split: option.splits)
qed

text \<open>
  The same for \<^verbatim>\<open>analyzeCauses\<close>. Two differences: without a brace match nothing is
  thrown and no dialog is shown, and on success the active tab becomes \<open>Causes\<close>.
\<close>

lemma analyzeCauses_reply:
  assumes "confirmedSymptoms st \<noteq> [] \<or> trim (additionalSymptoms st) \<noteq> []"
    and "apiKey' st \<noteq> []"
    and "fetch (causes_request st) = Responds code (Inr data)"
    and "response_ok code"
    and "content_texts data = reply # others"
  shows "analyzeCauses fetch st =
           (let st2 = addDebugLog (TokensText (usage_tokens data)) Success
                        (addDebugLog (Text (str ''Making API call via proxy...'')) Info
                          (addDebugLog (Text (str ''Analyzing potential causes...'')) Info
                            (st\<lparr>loading := True\<rparr>)));
                failed = (\<lambda>e. [Fetch (causes_request st),
                                 AlertError (str ''Failed to analyze causes: '') e])
            in case match_braces reply of
                 None \<Rightarrow> (st2\<lparr>loading := False\<rparr>, [Fetch (causes_request st)])
               | Some span \<Rightarrow>
                   (case JSON_parse span of
                      None \<Rightarrow> (st2\<lparr>loading := False\<rparr>, failed SyntaxError)
                    | Some causes \<Rightarrow>
                        if causes = JNull
                        then (st2\<lparr>potentialCauses := causes, loading := False\<rparr>,
                              failed TypeError)
                        else ((addDebugLog (IdentifiedText causes) Success
                                 (st2\<lparr>potentialCauses := causes\<rparr>))
                                \<lparr>activeTab := Causes, loading := False\<rparr>,
                              [Fetch (causes_request st)])))"
proof -
  define st1 where "st1 = addDebugLog (Text (str ''Analyzing potential causes...'')) Info
                            (st\<lparr>loading := True\<rparr>)"
  have k: "apiKey' st1 = apiKey' st" and m: "allSymptoms st1 = allSymptoms st"
    by (simp_all add: st1_def)
  have r: "claude_request (apiKey' st1) causes_prompt
             (str ''Symptoms: '' @ join (str '', '') (allSymptoms st1)) = causes_request st"
    by (simp add: causes_request_def k m)
  have c: "callClaude fetch causes_prompt
             (str ''Symptoms: '' @ join (str '', '') (allSymptoms st1)) st1 =
             (Inr reply,
              addDebugLog (TokensText (usage_tokens data)) Success
                (addDebugLog (Text (str ''Making API call via proxy...'')) Info st1),
              [Fetch (causes_request st)])"
    using callClaude_success [of st1 fetch causes_prompt
            "str ''Symptoms: '' @ join (str '', '') (allSymptoms st1)" code data reply others]
          assms k r
    by simp
  have t: "analyzeCauses_try fetch st1 =
          (let st2 = addDebugLog (TokensText (usage_tokens data)) Success
                       (addDebugLog (Text (str ''Making API call via proxy...'')) Info st1);
               fx = [Fetch (causes_request st)]
           in case match_braces reply of
                None \<Rightarrow> (None, st2, fx)
              | Some span \<Rightarrow>
                  (case JSON_parse span of
                     None \<Rightarrow> (Some SyntaxError, st2, fx)
                   | Some causes \<Rightarrow>
                       if causes = JNull
                       then (Some TypeError, st2\<lparr>potentialCauses := causes\<rparr>, fx)
                       else (None,
                             (addDebugLog (IdentifiedText causes) Success
                               (st2\<lparr>potentialCauses := causes\<rparr>))\<lparr>activeTab := Causes\<rparr>,
                             fx)))"
    unfolding analyzeCauses_try_def c
    by (simp add: Let_def split: option.splits)
  have h: "analyzeCauses fetch st =
          (case analyzeCauses_try fetch st1 of
              (None, st2, fx) \<Rightarrow> (st2\<lparr>loading := False\<rparr>, fx)
            | (Some e, st2, fx) \<Rightarrow>
                (st2\<lparr>loading := False\<rparr>,
                 fx @ [AlertError (str ''Failed to analyze causes: '') e]))"
    using assms(1) by (auto simp: analyzeCauses_def st1_def Let_def)
  show ?thesis
    unfolding h t
    by (simp add: st1_def Let_def split: option.splits)
qed

text \<open>\<^verbatim>\<open>analyzeSymptoms\<close> never sets the active tab, whatever the relay does.\<close>

lemma analyzeSymptoms_activeTab:
  "activeTab (fst (analyzeSymptoms fetch st)) = activeTab st"
proof -
  have "activeTab (fst (snd (analyzeSymptoms_try fetch st'))) = activeTab st'" for st'
    unfolding analyzeSymptoms_try_def
    using callClaude_state(1) [of fetch symptoms_prompt "str ''Medical Data:'' @ [0x0A] @ medicalData st'" st']
    by (auto simp: Let_def split: prod.splits sum.splits option.splits)
  from this [of "addDebugLog (Text (str ''Analyzing medical data for symptoms...'')) Info (st\<lparr>loading := True\<rparr>)"]
  show ?thesis
    by (auto simp: analyzeSymptoms_def Let_def split: prod.splits option.splits)
qed

lemma JSON_parse_hemoglobin:
  "JSON_parse (cu CHR ''['' # hemoglobin_object @ [cu CHR '']'']) = Some (JArray [hemoglobin_json])"
  by (simp add: hemoglobin_object_def hemoglobin_json_def json_eval)

lemma pasted_state_ready:
  "trim (medicalData pasted_state) \<noteq> []" "apiKey' pasted_state \<noteq> []"
  "trim (medicalData reanalysed_state) \<noteq> []" "apiKey' reanalysed_state \<noteq> []"
  by (simp_all add: reanalysed_state_def pasted_state_def ready_state_def medicalData_def trim_def
        js_whitespace_def str_def cu_def)

lemma confirmed_state_ready:
  "confirmedSymptoms confirmed_state \<noteq> [] \<or> trim (additionalSymptoms confirmed_state) \<noteq> []"
  "apiKey' confirmed_state \<noteq> []"
  by (simp_all add: confirmed_state_def symptoms_state_def pasted_state_def ready_state_def str_def)

lemma reply_with_ok:
  "reply_with text request =
     Responds 200 (Inr \<lparr>error_message = None, content_texts = [text], usage_tokens = Some (120, 45)\<rparr>)"
  "response_ok 200"
  "content_texts \<lparr>error_message = None, content_texts = [text], usage_tokens = Some (120, 45)\<rparr> = text # []"
  by (simp_all add: reply_with_def response_ok_def)

subsection \<open>Successful analyses\<close>

text \<open>
  The matched text begins with the opening delimiter, so what \<^verbatim>\<open>JSON.parse\<close> makes of
  it is an array (an object for the brace pattern), never \<^verbatim>\<open>null\<close>: the property
  reads in the two log lines cannot throw.
\<close>

lemma match_brackets_parse_array:
  assumes "match_brackets reply = Some span" and "JSON_parse span = Some v"
  shows "\<exists>vs. v = JArray vs"
proof -
  from assms(1) obtain mid where "span = cu CHR ''['' # mid @ [cu CHR '']'']"
    unfolding match_brackets_def by (blast dest: match_delimited_Some)
  with assms(2) show ?thesis by (auto dest: JSON_parse_bracket)
qed

lemma match_braces_parse_object:
  assumes "match_braces reply = Some span" and "JSON_parse span = Some v"
  shows "\<exists>ms. v = JObject ms"
proof -
  from assms(1) obtain mid where "span = cu CHR ''{'' # mid @ [cu CHR ''}'']"
    unfolding match_braces_def by (blast dest: match_delimited_Some)
  with assms(2) show ?thesis by (auto dest: JSON_parse_brace)
qed

text \<open>
  A reply whose matched text parses: \<^verbatim>\<open>analyzeSymptoms\<close> stores the array, logs, and
  shows no dialog; the active tab is the one it was. \<^verbatim>\<open>analyzeCauses\<close> stores the
  object, logs, and makes \<open>Causes\<close> the active tab. A cause-analysis reply without a
  brace match changes neither the causes nor the tab and shows no dialog.
\<close>

lemma analyzeSymptoms_success:
  assumes "trim (medicalData st) \<noteq> []"
    and "apiKey' st \<noteq> []"
    and "fetch (symptoms_request st) = Responds code (Inr data)"
    and "response_ok code"
    and "content_texts data = reply # others"
    and "match_brackets reply = Some span"
    and "JSON_parse span = Some symptoms"
  shows "analyzeSymptoms fetch st =
           ((addDebugLog (ExtractedText symptoms) Success
               ((addDebugLog (TokensText (usage_tokens data)) Success
                  (addDebugLog (Text (str ''Making API call via proxy...'')) Info
                    (addDebugLog (Text (str ''Analyzing medical data for symptoms...'')) Info
                      (st\<lparr>loading := True\<rparr>))))
                \<lparr>extractedSymptoms := symptoms\<rparr>))\<lparr>loading := False\<rparr>,
            [Fetch (symptoms_request st)])"
proof -
  from match_brackets_parse_array [OF assms(6,7)] have "symptoms \<noteq> JNull" by auto
  then show ?thesis
    by (simp add: analyzeSymptoms_reply [where fetch = fetch and st = st, OF assms(1-5)]
          assms(6,7) Let_def)
qed

lemma analyzeCauses_success:
  assumes "confirmedSymptoms st \<noteq> [] \<or> trim (additionalSymptoms st) \<noteq> []"
    and "apiKey' st \<noteq> []"
    and "fetch (causes_request st) = Responds code (Inr data)"
    and "response_ok code"
    and "content_texts data = reply # others"
    and "match_braces reply = Some span"
    and "JSON_parse span = Some causes"
  shows "analyzeCauses fetch st =
           ((addDebugLog (IdentifiedText causes) Success
               ((addDebugLog (TokensText (usage_tokens data)) Success
                  (addDebugLog (Text (str ''Making API call via proxy...'')) Info
                    (addDebugLog (Text (str ''Analyzing potential causes...'')) Info
                      (st\<lparr>loading := True\<rparr>))))
                \<lparr>potentialCauses := causes\<rparr>))\<lparr>activeTab := Causes, loading := False\<rparr>,
            [Fetch (causes_request st)])"
proof -
  from match_braces_parse_object [OF assms(6,7)] have "causes \<noteq> JNull" by auto
  then show ?thesis
    by (simp add: analyzeCauses_reply [where fetch = fetch and st = st, OF assms(1-5)]
          assms(6,7) Let_def)
qed

lemma analyzeCauses_no_object:
  assumes "confirmedSymptoms st \<noteq> [] \<or> trim (additionalSymptoms st) \<noteq> []"
    and "apiKey' st \<noteq> []"
    and "fetch (causes_request st) = Responds code (Inr data)"
    and "response_ok code"
    and "content_texts data = reply # others"
    and "match_braces reply = None"
  shows "snd (analyzeCauses fetch st) = [Fetch (causes_request st)]"
    and "potentialCauses (fst (analyzeCauses fetch st)) = potentialCauses st"
    and "activeTab (fst (analyzeCauses fetch st)) = activeTab st"
  by (simp_all add: analyzeCauses_reply [where fetch = fetch and st = st, OF assms(1-5)]
        assms(6) Let_def)

subsection \<open>Document ingestion\<close>

text \<open>
  A successful document ingestion makes \<open>Symptoms\<close> the active tab and stores the
  extracted text; no ingestion, successful or not, touches the extracted-symptom set.
\<close>

lemma handleFileUpload_advances:
  assumes "chosen = Some file" and "file_type file = str ''application/pdf''"
    and "extractTextFromPDF fetch file (st\<lparr>loading := True\<rparr>) = (Inr text, st1, fx)"
  shows "activeTab (fst (handleFileUpload fetch chosen st)) = Symptoms"
    and "pdfText (fst (handleFileUpload fetch chosen st)) = text"
  using assms by (simp_all add: handleFileUpload_def)

lemma extractTextFromPDF_state:
  "extractedSymptoms (fst (snd (extractTextFromPDF fetch file st))) = extractedSymptoms st"
  unfolding extractTextFromPDF_def Let_def
  by (auto split: option.splits list.splits prod.splits sum.splits dest: callClaude_keeps(2))

lemma extractTextFromPDF_keeps:
  assumes "extractTextFromPDF fetch pdf st = (r, st', fx)"
  shows "extractedSymptoms st' = extractedSymptoms st"
  using extractTextFromPDF_state [of fetch pdf st] assms by simp

lemma handleFileUpload_extractedSymptoms:
  "extractedSymptoms (fst (handleFileUpload fetch chosen st)) = extractedSymptoms st"
  unfolding handleFileUpload_def
  by (auto split: option.splits prod.splits sum.splits dest: extractTextFromPDF_keeps)

subsection \<open>Cause analysis without input\<close>

text \<open>
  \<^bold>\<open>Claim C8.\<close> Whenever no symptom is confirmed and the additional-symptom text is empty
  or consists of white space only, \<^verbatim>\<open>analyzeCauses\<close> makes no relay call, shows the user
  a message, and returns the state it was given, unchanged in every component.
\<close>

theorem analyzeCauses_requires_input:
  assumes "confirmedSymptoms st = []"
    and "\<forall>c\<in>set (additionalSymptoms st). js_whitespace c"
  shows "analyzeCauses fetch st =
           (st, [Alert (str ''Please confirm at least one symptom or add additional symptoms'')])"
  using assms by (simp add: analyzeCauses_def trim_eq_Nil_iff)

theorem analyzeCauses_requires_input_witness:
  "confirmedSymptoms blank_state = [] \<and>
   list_all js_whitespace (additionalSymptoms blank_state) \<and>
   analyzeCauses (reply_with (str ''{}'')) blank_state =
     (blank_state, [Alert (str ''Please confirm at least one symptom or add additional symptoms'')])"
proof -
  have 1: "confirmedSymptoms blank_state = []"
    by (simp add: blank_state_def symptoms_state_def pasted_state_def ready_state_def)
  have 2: "\<forall>c\<in>set (additionalSymptoms blank_state). js_whitespace c"
    by (simp add: blank_state_def js_whitespace_def str_def cu_def)
  from analyzeCauses_requires_input [OF 1 2, of "reply_with (str ''{}'')"] 1 2
  show ?thesis by (simp add: list_all_iff)
qed

subsection \<open>Toggling a symptom twice\<close>

text \<open>
  \<^bold>\<open>Claim C7\<close> says that for every symptom and every confirmed-symptom set, toggling the
  symptom twice leaves it not confirmed. This fails for a set in which the symptom is
  already confirmed: the first toggle removes it and the second one adds it again.
\<close>

theorem toggleSymptom_twice_counterexample:
  "confirmedSymptoms confirmed_state = [low_hemoglobin] \<and>
   confirmedSymptoms (toggleSymptom low_hemoglobin confirmed_state) = [] \<and>
   confirmedSymptoms (toggleSymptom low_hemoglobin (toggleSymptom low_hemoglobin confirmed_state)) =
     [low_hemoglobin] \<and>
   is_confirmed low_hemoglobin
     (toggleSymptom low_hemoglobin (toggleSymptom low_hemoglobin confirmed_state))"
  by (simp add: is_confirmed_def toggleSymptom_def confirmed_state_def)

text \<open>
  \<^bold>\<open>Claim C7, amended.\<close> For every symptom \<open>s\<close> and every confirmed-symptom set,
  toggling \<open>s\<close> twice in succession restores the membership of \<open>s\<close> (decided by symptom
  name) to what it was before; when \<open>s\<close> was not confirmed before, the two toggles give
  back the very same state, in which \<open>s\<close> is not confirmed.
\<close>

theorem toggleSymptom_twice:
  "is_confirmed s (toggleSymptom s (toggleSymptom s st)) = is_confirmed s st \<and>
   (\<not> is_confirmed s st \<longrightarrow> toggleSymptom s (toggleSymptom s st) = st)"
proof (cases "find (\<lambda>x. symptom x = symptom s) (confirmedSymptoms st)")
  case None
  then have n: "\<forall>x\<in>set (confirmedSymptoms st). symptom x \<noteq> symptom s"
    by (simp add: find_None_iff)
  have 1: "confirmedSymptoms (toggleSymptom s st) = confirmedSymptoms st @ [s]"
    using None by (simp add: toggleSymptom_def)
  have "find (\<lambda>x. symptom x = symptom s) (confirmedSymptoms st @ [s]) \<noteq> None"
    by (auto simp: find_None_iff)
  then have 2: "confirmedSymptoms (toggleSymptom s (toggleSymptom s st)) =
                 filter (\<lambda>x. symptom x \<noteq> symptom s) (confirmedSymptoms st @ [s])"
    using 1 by (auto simp: toggleSymptom_def)
  also have "\<dots> = confirmedSymptoms st"
    using n by (simp add: filter_id_conv)
  finally have 3: "confirmedSymptoms (toggleSymptom s (toggleSymptom s st)) = confirmedSymptoms st" .
  have "toggleSymptom s (toggleSymptom s st) = st\<lparr>confirmedSymptoms := confirmedSymptoms st\<rparr>"
    using 3 by (simp add: toggleSymptom_def)
  then have "toggleSymptom s (toggleSymptom s st) = st" by simp
  then show ?thesis by simp
next
  case (Some y)
  then have 1: "confirmedSymptoms (toggleSymptom s st) =
                 filter (\<lambda>x. symptom x \<noteq> symptom s) (confirmedSymptoms st)"
    by (simp add: toggleSymptom_def)
  have "find (\<lambda>x. symptom x = symptom s)
          (filter (\<lambda>x. symptom x \<noteq> symptom s) (confirmedSymptoms st)) = None"
    by (simp add: find_None_iff)
  then have 2: "confirmedSymptoms (toggleSymptom s (toggleSymptom s st)) =
                 filter (\<lambda>x. symptom x \<noteq> symptom s) (confirmedSymptoms st) @ [s]"
    using 1 by (simp add: toggleSymptom_def)
  have "is_confirmed s (toggleSymptom s (toggleSymptom s st))"
    by (auto simp: is_confirmed_def 2 find_None_iff)
  moreover have "is_confirmed s st" using Some by (simp add: is_confirmed_def)
  ultimately show ?thesis by simp
qed

theorem toggleSymptom_twice_witness:
  "\<not> is_confirmed low_hemoglobin symptoms_state \<and>
   is_confirmed low_hemoglobin (toggleSymptom low_hemoglobin symptoms_state) \<and>
   toggleSymptom low_hemoglobin (toggleSymptom low_hemoglobin symptoms_state) = symptoms_state \<and>
   \<not> is_confirmed low_hemoglobin
        (toggleSymptom low_hemoglobin (toggleSymptom low_hemoglobin symptoms_state))"
proof -
  have 1: "\<not> is_confirmed low_hemoglobin symptoms_state"
    by (simp add: is_confirmed_def symptoms_state_def pasted_state_def ready_state_def)
  have 2: "is_confirmed low_hemoglobin (toggleSymptom low_hemoglobin symptoms_state)"
    by (simp add: is_confirmed_def toggleSymptom_def symptoms_state_def pasted_state_def
          ready_state_def)
  from toggleSymptom_twice [of low_hemoglobin symptoms_state] 1 2 show ?thesis by simp
qed

subsection \<open>Parsing the symptom-extraction reply\<close>

text \<open>
  \<^bold>\<open>Claim C6\<close> says that whenever the reply contains a well-formed bracket-delimited span
  holding valid JSON, the structure in the first such span becomes the extracted-symptom
  set. The pattern is greedy, so the text that is parsed runs from the first \<^verbatim>\<open>[\<close> to the
  last \<^verbatim>\<open>]\<close> of the reply. The reply \<^verbatim>\<open>[] []\<close> begins with the span \<^verbatim>\<open>[]\<close>, which is valid
  JSON for the empty array, but the text parsed is \<^verbatim>\<open>[] []\<close>, which \<^verbatim>\<open>JSON.parse\<close>
  rejects: a failure dialog is shown and the extracted-symptom set keeps its earlier
  value, which is not the empty array.
\<close>

theorem analyzeSymptoms_extraction_counterexample:
  "str ''[] []'' = str ''[]'' @ str '' []'' \<and>
   JSON_parse (str ''[]'') = Some (JArray []) \<and>
   extractedSymptoms reanalysed_state = JArray [hemoglobin_json] \<and>
   extractedSymptoms (fst (analyzeSymptoms (reply_with (str ''[] []'')) reanalysed_state)) =
     JArray [hemoglobin_json] \<and>
   snd (analyzeSymptoms (reply_with (str ''[] []'')) reanalysed_state) =
     [Fetch (symptoms_request reanalysed_state),
      AlertError (str ''Failed to analyze symptoms: '') SyntaxError]"
proof -
  have m: "match_brackets (str ''[] []'') = Some (str ''[] []'')"
    by (simp add: match_brackets_def match_delimited_def str_def cu_def)
  have e: "extractedSymptoms reanalysed_state = JArray [hemoglobin_json]"
    by (simp add: reanalysed_state_def)
  note r = analyzeSymptoms_reply [where fetch = "reply_with (str ''[] []'')",
             OF pasted_state_ready(3,4) reply_with_ok]
  show ?thesis
    by (simp add: r m e JSON_parse_two_arrays JSON_parse_empty_array Let_def) (simp add: str_def)
qed

text \<open>
  \<^bold>\<open>Claim C6, amended.\<close> For every symptom-extraction reply (non-blank source text, a
  stored credential, a success response whose first content text is the reply):
  if the text from the first \<^verbatim>\<open>[\<close> to the last \<^verbatim>\<open>]\<close> of the reply is valid JSON, the
  parsed structure becomes the extracted-symptom set; if the reply has no \<^verbatim>\<open>[\<close> that is
  followed by a \<^verbatim>\<open>]\<close>, the extracted-symptom set is left unchanged and the failure is
  caught and shown to the user as
  \<^verbatim>\<open>Failed to analyze symptoms: Could not parse symptoms from response\<close>.
\<close>

theorem analyzeSymptoms_extraction:
  assumes "trim (medicalData st) \<noteq> []"
    and "apiKey' st \<noteq> []"
    and "fetch (symptoms_request st) = Responds code (Inr data)"
    and "response_ok code"
    and "content_texts data = reply # others"
  shows "(\<forall>pre mid suf symptoms.
            reply = pre @ cu CHR ''['' # mid @ cu CHR '']'' # suf \<and>
            cu CHR ''['' \<notin> set pre \<and> cu CHR '']'' \<notin> set suf \<and>
            JSON_parse (cu CHR ''['' # mid @ [cu CHR '']'']) = Some symptoms \<longrightarrow>
            extractedSymptoms (fst (analyzeSymptoms fetch st)) = symptoms) \<and>
         ((\<nexists>pre mid suf. reply = pre @ cu CHR ''['' # mid @ cu CHR '']'' # suf) \<longrightarrow>
            extractedSymptoms (fst (analyzeSymptoms fetch st)) = extractedSymptoms st \<and>
            snd (analyzeSymptoms fetch st) =
              [Fetch (symptoms_request st),
               AlertError (str ''Failed to analyze symptoms: '')
                 (Error (str ''Could not parse symptoms from response''))])"
proof (intro conjI allI impI)
  fix pre mid suf symptoms
  assume a: "reply = pre @ cu CHR ''['' # mid @ cu CHR '']'' # suf \<and>
            cu CHR ''['' \<notin> set pre \<and> cu CHR '']'' \<notin> set suf \<and>
            JSON_parse (cu CHR ''['' # mid @ [cu CHR '']'']) = Some symptoms"
  then have "match_brackets reply = Some (cu CHR ''['' # mid @ [cu CHR '']''])"
    unfolding match_brackets_def using match_delimited_span by blast
  with a show "extractedSymptoms (fst (analyzeSymptoms fetch st)) = symptoms"
    by (simp add: analyzeSymptoms_reply [where fetch = fetch and st = st, OF assms] Let_def)
next
  assume "\<nexists>pre mid suf. reply = pre @ cu CHR ''['' # mid @ cu CHR '']'' # suf"
  then have n: "match_brackets reply = None"
    by (simp add: match_brackets_def match_delimited_None_iff_no_span)
  show "extractedSymptoms (fst (analyzeSymptoms fetch st)) = extractedSymptoms st"
    by (simp add: analyzeSymptoms_reply [where fetch = fetch and st = st, OF assms] n Let_def)
  show "snd (analyzeSymptoms fetch st) =
          [Fetch (symptoms_request st),
           AlertError (str ''Failed to analyze symptoms: '')
             (Error (str ''Could not parse symptoms from response''))]"
    by (simp add: analyzeSymptoms_reply [where fetch = fetch and st = st, OF assms] n Let_def)
qed

theorem analyzeSymptoms_extraction_witness:
  "trim (medicalData pasted_state) \<noteq> [] \<and> apiKey' pasted_state \<noteq> [] \<and>
   extractedSymptoms
     (fst (analyzeSymptoms (reply_with (str ''Symptoms: '' @ hemoglobin_reply @ str ''.''))
             pasted_state)) = JArray [hemoglobin_json] \<and>
   extractedSymptoms (fst (analyzeSymptoms (reply_with (str ''No symptoms found.'')) pasted_state)) =
     extractedSymptoms pasted_state \<and>
   snd (analyzeSymptoms (reply_with (str ''No symptoms found.'')) pasted_state) =
     [Fetch (symptoms_request pasted_state),
      AlertError (str ''Failed to analyze symptoms: '')
        (Error (str ''Could not parse symptoms from response''))]"
proof -
  have span: "str ''Symptoms: '' @ hemoglobin_reply @ str ''.'' =
                str ''Symptoms: '' @ cu CHR ''['' # hemoglobin_object @ cu CHR '']'' # str ''.'' \<and>
              cu CHR ''['' \<notin> set (str ''Symptoms: '') \<and> cu CHR '']'' \<notin> set (str ''.'') \<and>
              JSON_parse (cu CHR ''['' # hemoglobin_object @ [cu CHR '']'']) = Some (JArray [hemoglobin_json])"
    by (simp add: hemoglobin_reply_def JSON_parse_hemoglobin) (simp add: str_def cu_def)
  have "match_delimited (cu CHR ''['') (cu CHR '']'') (str ''No symptoms found.'') = None"
    by (simp add: match_delimited_def str_def cu_def)
  then have none: "\<nexists>pre mid suf. str ''No symptoms found.'' = pre @ cu CHR ''['' # mid @ cu CHR '']'' # suf"
    by (rule match_delimited_None_iff_no_span [THEN iffD1])
  note found = analyzeSymptoms_extraction
      [where fetch = "reply_with (str ''Symptoms: '' @ hemoglobin_reply @ str ''.'')",
       OF pasted_state_ready(1,2) reply_with_ok, THEN conjunct1, rule_format, OF span]
  note missing = analyzeSymptoms_extraction
      [where fetch = "reply_with (str ''No symptoms found.'')",
       OF pasted_state_ready(1,2) reply_with_ok, THEN conjunct2, rule_format, OF none]
  from found missing pasted_state_ready(1,2) show ?thesis by simp
qed

subsection \<open>After a successful symptom extraction\<close>

text \<open>
  \<^bold>\<open>Claim C9\<close> says that a successful analysis of pasted text populates the
  extracted-symptom set and advances the active stage from upload to symptoms. Evaluated on
  the pasted report \<^verbatim>\<open>Hemoglobin: 8.2 g/dL (low)\<close> and a reply holding one symptom:
  the set is populated, and the active stage is still upload. (\<^verbatim>\<open>analyzeSymptoms\<close> has
  no \<^verbatim>\<open>setActiveTab\<close>; \<^verbatim>\<open>analyzeCauses\<close>, \<^verbatim>\<open>findSolutions\<close> and
  \<^verbatim>\<open>handleFileUpload\<close> each have one.)
\<close>

theorem analyzeSymptoms_stays_on_upload:
  "activeTab pasted_state = Upload \<and>
   extractedSymptoms (fst (analyzeSymptoms (reply_with hemoglobin_reply) pasted_state)) =
     JArray [hemoglobin_json] \<and>
   snd (analyzeSymptoms (reply_with hemoglobin_reply) pasted_state) =
     [Fetch (symptoms_request pasted_state)] \<and>
   activeTab (fst (analyzeSymptoms (reply_with hemoglobin_reply) pasted_state)) = Upload"
proof -
  have m: "match_brackets hemoglobin_reply = Some hemoglobin_reply"
    using match_delimited_span [of "cu CHR ''[''" "[]" "cu CHR '']''" "[]" hemoglobin_object]
    by (simp add: match_brackets_def hemoglobin_reply_def)
  have p: "JSON_parse hemoglobin_reply = Some (JArray [hemoglobin_json])"
    by (simp add: hemoglobin_reply_def JSON_parse_hemoglobin)
  have t: "activeTab pasted_state = Upload"
    by (simp add: pasted_state_def ready_state_def)
  note r = analyzeSymptoms_reply [where fetch = "reply_with hemoglobin_reply",
             OF pasted_state_ready(1,2) reply_with_ok]
  show ?thesis
    by (simp add: r m p t Let_def)
qed

subsection \<open>A cause-analysis reply without an object\<close>

text \<open>
  \<^bold>\<open>Claim C5\<close> says that a cause-analysis reply with no brace-delimited object leaves the
  causes unset, keeps the workflow on its stage and produces a user-visible failure
  message. Evaluated on such a reply: the causes stay \<^verbatim>\<open>null\<close> and the stage stays
  symptoms, but the only effect is the request itself: no dialog is shown.
  (\<^verbatim>\<open>analyzeSymptoms\<close> throws in the \<^verbatim>\<open>else\<close> branch of its match test;
  \<^verbatim>\<open>analyzeCauses\<close> has no \<^verbatim>\<open>else\<close> branch.)
\<close>

theorem analyzeCauses_silent_without_object:
  "match_braces (str ''I cannot determine any causes.'') = None \<and>
   snd (analyzeCauses (reply_with (str ''I cannot determine any causes.'')) confirmed_state) =
     [Fetch (causes_request confirmed_state)] \<and>
   potentialCauses (fst (analyzeCauses (reply_with (str ''I cannot determine any causes.''))
                           confirmed_state)) = JNull \<and>
   activeTab (fst (analyzeCauses (reply_with (str ''I cannot determine any causes.''))
                     confirmed_state)) = Symptoms"
proof -
  have m: "match_braces (str ''I cannot determine any causes.'') = None"
    by (simp add: match_braces_def match_delimited_def str_def cu_def)
  have t: "activeTab confirmed_state = Symptoms" "potentialCauses confirmed_state = JNull"
    by (simp_all add: confirmed_state_def symptoms_state_def pasted_state_def ready_state_def)
  note r = analyzeCauses_reply [where fetch = "reply_with (str ''I cannot determine any causes.'')",
             OF confirmed_state_ready reply_with_ok]
  show ?thesis
    by (simp add: r m t Let_def)
qed

end
